theory Spec2Isabelle
  imports Main
begin

section \<open>Gradual annotation inference: jedi/inference/gradual/annotation.py\<close>

text \<open>
  A shallow embedding of the module \<^verbatim>\<open>jedi/inference/gradual/annotation.py\<close>.
  Functions of the module are translated one by one and keep their names; a leading
  underscore of the source is written \<open>u_\<close> (\<^verbatim>\<open>_infer_param\<close> is \<open>u_infer_param\<close>)
  and the double underscores of \<^verbatim>\<open>py__name__\<close> and friends are dropped.

  The module leans on collaborators that live elsewhere: the parso parser, the inference
  engine (\<^verbatim>\<open>context.infer_node\<close>) and the methods of inferred values. They are
  parameters of the model: the record \<open>env\<close> below holds one function per
  collaborator, and a theorem that holds for every \<open>env\<close> holds whatever these do.

  Python exceptions are values: a function that can raise returns \<open>exn + 'a\<close>, with
  \<open>Inl\<close> the exception. Calls of \<^verbatim>\<open>debug.warning\<close> are returned as a list of
  diagnostics next to the result.
\<close>

subsection \<open>Exceptions, diagnostics, strings\<close>

datatype exn =
    ParserSyntaxError
  | AttributeError
  | IndexError
  | ValueError
  | SimpleGetItemNotFound

text \<open>
  Python's \<^verbatim>\<open>str.isspace\<close> on the ASCII range (it is also what \<^verbatim>\<open>\s\<close> matches in a
  \<^verbatim>\<open>str\<close> pattern): space, tab, line feed, vertical tab, form feed, carriage return and
  the four separators 0x1C to 0x1F. Characters of the model are bytes.
\<close>

definition isspace :: "char \<Rightarrow> bool" where
  "isspace c \<longleftrightarrow>
     c \<in> set [CHR '' '', CHR 0x09, CHR 0x0A, CHR 0x0B, CHR 0x0C, CHR 0x0D,
              CHR 0x1C, CHR 0x1D, CHR 0x1E, CHR 0x1F]"

text \<open>\<^verbatim>\<open>str.strip()\<close>: whitespace is removed at both ends.\<close>

definition strip :: "string \<Rightarrow> string" where
  "strip s = rev (dropWhile isspace (rev (dropWhile isspace s)))"

subsection \<open>Syntax trees\<close>

text \<open>
  A parso tree: a leaf has a type, a prefix (the whitespace and comments before it) and
  a value; an inner node has a type and children. \<^verbatim>\<open>get_code()\<close> gives back the
  source text: prefix and value of a leaf, the concatenation of the children's code
  for an inner node. A leaf has no attribute \<^verbatim>\<open>children\<close>.
\<close>

datatype node =
    Leaf (ntype: string) (leaf_prefix: string) (leaf_value: string)
  | BaseNode (ntype: string) (child_nodes: "node list")

fun get_code :: "node \<Rightarrow> string" where
  "get_code (Leaf t p v) = p @ v"
| "get_code (BaseNode t cs) = concat (map get_code cs)"

fun children :: "node \<Rightarrow> exn + node list" where
  "children (Leaf t p v) = Inl AttributeError"
| "children (BaseNode t cs) = Inr cs"

text \<open>
  \<^verbatim>\<open>leaf == '['\<close>: parso's operator and keyword leaves compare equal to a string
  with their value; every other node compares by identity, so never equals a string.
\<close>

fun eq_str :: "node \<Rightarrow> string \<Rightarrow> bool" where
  "eq_str (Leaf t p v) s \<longleftrightarrow> (t = ''operator'' \<or> t = ''keyword'') \<and> v = s"
| "eq_str (BaseNode t cs) s \<longleftrightarrow> False"

text \<open>The slice \<^verbatim>\<open>xs[::2]\<close>: the elements at even positions.\<close>

fun every_second :: "'a list \<Rightarrow> 'a list" where
  "every_second [] = []"
| "every_second [x] = [x]"
| "every_second (x # y # xs) = x # every_second xs"

datatype diagnostic =
    AnnotationNotParsed string
  | CommentAnnotationNotValid string
  | CommentsLengthMismatch "string list" nat
  | NotOneObject node nat

subsection \<open>The comment-annotation splitter\<close>

text \<open>
  \<^verbatim>\<open>_split_comment_param_declaration(decl_text)\<close>. The parser is the parameter
  \<open>parse\<close>: \<^verbatim>\<open>parse(decl_text, error_recovery=False)\<close> returns the module node or
  raises. Only \<^verbatim>\<open>ParserSyntaxError\<close> is caught by the first \<^verbatim>\<open>try\<close>, only
  \<^verbatim>\<open>AttributeError\<close> (a leaf has no children) by the second.
\<close>

definition annotation_types :: "string list" where
  "annotation_types = [''name'', ''atom_expr'', ''power'']"

definition u_split_comment_param_declaration ::
  "(string \<Rightarrow> exn + node) \<Rightarrow> string \<Rightarrow> exn + (string list \<times> diagnostic list)" where
  "u_split_comment_param_declaration parse decl_text =
     (case parse decl_text of
        Inl e \<Rightarrow>
          (if e = ParserSyntaxError then Inr ([], [CommentAnnotationNotValid decl_text])
           else Inl e)
      | Inr module \<Rightarrow>
          (case children module of
             Inl e \<Rightarrow> Inl e
           | Inr [] \<Rightarrow> Inl IndexError
           | Inr (node # rest) \<Rightarrow>
               if ntype node \<in> set annotation_types then Inr ([strip (get_code node)], [])
               else
                 (case children node of
                    Inl e \<Rightarrow> (if e = AttributeError then Inr ([], []) else Inl e)
                  | Inr cs \<Rightarrow>
                      Inr (map (\<lambda>child. strip (get_code child))
                             (filter (\<lambda>child. ntype child \<in> set annotation_types) cs), []))))"

subsection \<open>Inferred values and the collaborators\<close>

text \<open>
  An inferred value, as far as this module looks at it. The module never builds or
  inspects a value except through the following: the classes it tests with
  \<^verbatim>\<open>isinstance\<close> (\<open>isa\<close> lists those the value is an instance of),
  \<^verbatim>\<open>py__name__()\<close>, \<^verbatim>\<open>get_generics()\<close> (the ordered generic arguments, each a
  value set), \<^verbatim>\<open>is_instance()\<close>, \<^verbatim>\<open>get_annotated_class_object()\<close> and
  \<^verbatim>\<open>py__mro__()\<close>. A method that a value does not have is \<open>None\<close>; calling it
  raises \<^verbatim>\<open>AttributeError\<close>. \<open>decl\<close> is the identity of the object (for a type
  variable, of its declaration): two values are the same Python object iff they are
  equal here.

  A \<^verbatim>\<open>ValueSet\<close> is written as the list of its members in iteration order. The
  value sets stored in a binding map are kept as sets, since \<^verbatim>\<open>|=\<close> is their union.
\<close>

datatype pyclass = TypeVar | TypingClassValueWithIndex | GenericClass | DefineGenericBase

datatype val = Val
  (isa: "pyclass list")
  (py_name: string)
  (decl: nat)
  (get_generics: "val list list option")
  (is_instance: "bool option")
  (get_annotated_class_object: "val option")
  (py_mro: "val list option")

definition isinstance :: "val \<Rightarrow> pyclass \<Rightarrow> bool" where
  "isinstance v c \<longleftrightarrow> c \<in> set (isa v)"

type_synonym ctx = nat

type_synonym type_var_dict = "string \<rightharpoonup> val set"

datatype param_kind =
  POSITIONAL_ONLY | POSITIONAL_OR_KEYWORD | VAR_POSITIONAL | KEYWORD_ONLY | VAR_KEYWORD

text \<open>An executed parameter name: its name, kind and the inferred argument bound to it.\<close>

record executed_param_name =
  string_name :: string
  get_kind :: param_kind
  infer :: "val list"

text \<open>
  A parameter and a function definition of the tree, and a function value. \<open>params\<close>
  are the children of type \<^verbatim>\<open>param\<close> of the parameter list, in order;
  \<open>following_comment\<close> is \<^verbatim>\<open>parser_utils.get_following_comment_same_line\<close> of
  the definition.
\<close>

record param =
  param_name :: string
  annotation :: "node option"
  star_count :: nat

record funcdef =
  params :: "param list"
  return_annotation :: "node option"
  following_comment :: "string option"

record function_value =
  tree_node :: funcdef
  is_bound_method :: bool
  get_default_param_context :: ctx

text \<open>
  The collaborators. \<open>parse\<close> is \<^verbatim>\<open>parso.parse(text, error_recovery=False)\<close>,
  \<open>grammar_parse\<close> is the grammar's parse with start symbol \<^verbatim>\<open>eval_input\<close>;
  \<open>string_value v\<close> is \<open>Some s\<close> when \<^verbatim>\<open>is_string(v)\<close> holds and
  \<^verbatim>\<open>v.get_safe_value()\<close> is \<open>s\<close>. The functions on value sets are the methods
  of \<^verbatim>\<open>ValueSet\<close> with these names; \<open>execute_annotation_of\<close> and
  \<open>is_homogenous\<close> are methods of one value. \<open>arguments\<close> of a call are opaque:
  \<open>get_executed_param_names\<close> binds them to the parameters.
\<close>

record 'args env =
  parse :: "string \<Rightarrow> exn + node"
  grammar_parse :: "string \<Rightarrow> exn + node"
  infer_node :: "ctx \<Rightarrow> node \<Rightarrow> val list"
  string_value :: "val \<Rightarrow> string option"
  array_type :: "val \<Rightarrow> string option"
  py_iter :: "val \<Rightarrow> val list list"
  py_simple_getitem :: "val list \<Rightarrow> nat \<Rightarrow> exn + val list"
  py_class_of_set :: "val list \<Rightarrow> val list"
  execute_annotation :: "val list \<Rightarrow> val list"
  execute_annotation_of :: "val \<Rightarrow> val list"
  is_homogenous :: "val \<Rightarrow> bool"
  merge_types_of_iterate :: "val list \<Rightarrow> val list"
  try_merge_dict_values :: "val list \<Rightarrow> val list"
  define_generics :: "val \<Rightarrow> type_var_dict \<Rightarrow> val list"
  builtin_from_name :: "string \<Rightarrow> val"
  new_GenericClass :: "val \<Rightarrow> val list list \<Rightarrow> val"
  get_executed_param_names :: "function_value \<Rightarrow> 'args \<Rightarrow> executed_param_name list"

definition NO_VALUES :: "val list" where
  "NO_VALUES = []"

subsection \<open>Forward references and annotation strings\<close>

text \<open>
  \<^verbatim>\<open>_get_forward_reference_node(context, string)\<close>. The tree of the model has no
  positions and no parent links, so \<^verbatim>\<open>parser_utils.move\<close> and the assignment of
  \<^verbatim>\<open>new_node.parent\<close> leave the parsed node as it is.
\<close>

definition u_get_forward_reference_node ::
  "'args env \<Rightarrow> ctx \<Rightarrow> string \<Rightarrow> exn + (node option \<times> diagnostic list)" where
  "u_get_forward_reference_node env context string =
     (case grammar_parse env string of
        Inl e \<Rightarrow>
          (if e = ParserSyntaxError then Inr (None, [AnnotationNotParsed string]) else Inl e)
      | Inr new_node \<Rightarrow> Inr (Some new_node, []))"

text \<open>
  \<^verbatim>\<open>infer_annotation(context, annotation)\<close>: a single inferred string is a forward
  reference and is parsed and inferred again.
\<close>

definition infer_annotation ::
  "'args env \<Rightarrow> ctx \<Rightarrow> node \<Rightarrow> exn + (val list \<times> diagnostic list)" where
  "infer_annotation env context annotation_node =
     (let value_set = infer_node env context annotation_node in
      if length value_set \<noteq> 1 then
        Inr (value_set, [NotOneObject annotation_node (length value_set)])
      else
        (case string_value env (hd value_set) of
           None \<Rightarrow> Inr (value_set, [])
         | Some s \<Rightarrow>
             (case u_get_forward_reference_node env context s of
                Inl e \<Rightarrow> Inl e
              | Inr (None, w) \<Rightarrow> Inr (value_set, w)
              | Inr (Some result, w) \<Rightarrow> Inr (infer_node env context result, w))))"

text \<open>
  \<^verbatim>\<open>_infer_annotation_string(context, string, index=None)\<close>. With an index the
  inferred values are filtered by the lambda of the source, a tuple whose
  \<^verbatim>\<open>len(list(value.py__iter__())) >= index\<close>, and \<^verbatim>\<open>py__simple_getitem__(index)\<close>
  is called on the values that are left.
\<close>

definition u_infer_annotation_string ::
  "'args env \<Rightarrow> ctx \<Rightarrow> string \<Rightarrow> nat option \<Rightarrow> exn + (val list \<times> diagnostic list)" where
  "u_infer_annotation_string env context string index =
     (case u_get_forward_reference_node env context string of
        Inl e \<Rightarrow> Inl e
      | Inr (None, w) \<Rightarrow> Inr (NO_VALUES, w)
      | Inr (Some node, w) \<Rightarrow>
          (let value_set = infer_node env context node in
           case index of
             None \<Rightarrow> Inr (value_set, w)
           | Some i \<Rightarrow>
               (case py_simple_getitem env
                       (filter (\<lambda>v. array_type env v = Some ''tuple''
                                     \<and> length (py_iter env v) \<ge> i) value_set) i of
                  Inl e \<Rightarrow> Inl e
                | Inr value_set' \<Rightarrow> Inr (value_set', w))))"

subsection \<open>Type comments\<close>

text \<open>
  The three patterns the module matches a comment against with \<^verbatim>\<open>re.match\<close>, written
  as the functions that return \<^verbatim>\<open>match.group(1)\<close>, or \<open>None\<close> when the pattern
  does not match. All three start with \<^verbatim>\<open>^#\s*type:\s*\<close>. In the first two,
  \<^verbatim>\<open>\(([^#]*)\)\s*->\<close> backtracks from the longest run of characters other than
  \<^verbatim>\<open>#\<close>: the group ends at the last closing parenthesis, before the first
  \<^verbatim>\<open>#\<close>, that is followed by optional whitespace and \<^verbatim>\<open>->\<close>.
\<close>

fun strip_prefix :: "string \<Rightarrow> string \<Rightarrow> string option" where
  "strip_prefix [] s = Some s"
| "strip_prefix (p # ps) [] = None"
| "strip_prefix (p # ps) (c # cs) = (if p = c then strip_prefix ps cs else None)"

definition type_comment_body :: "string \<Rightarrow> string option" where
  "type_comment_body comment =
     (case comment of
        [] \<Rightarrow> None
      | c # r \<Rightarrow>
          if c = CHR ''#'' then
            map_option (dropWhile isspace) (strip_prefix ''type:'' (dropWhile isspace r))
          else None)"

fun last_arrow :: "string \<Rightarrow> string \<Rightarrow> (string \<times> string) option \<Rightarrow> (string \<times> string) option" where
  "last_arrow seen [] best = best"
| "last_arrow seen (c # cs) best =
     (if c = CHR ''#'' then best
      else last_arrow (seen @ [c]) cs
             (if c = CHR '')'' then
                (case strip_prefix ''->'' (dropWhile isspace cs) of
                   None \<Rightarrow> best
                 | Some after \<Rightarrow> Some (seen, after))
              else best))"

definition params_and_return :: "string \<Rightarrow> (string \<times> string) option" where
  "params_and_return comment =
     (case type_comment_body comment of
        None \<Rightarrow> None
      | Some [] \<Rightarrow> None
      | Some (c # r) \<Rightarrow> if c = CHR ''('' then last_arrow [] r None else None)"

text \<open>\<^verbatim>\<open>re.match(r"^#\s*type:\s*\(([^#]*)\)\s*->", comment)\<close>\<close>

definition match_params_comment :: "string \<Rightarrow> string option" where
  "match_params_comment comment = map_option fst (params_and_return comment)"

text \<open>\<^verbatim>\<open>re.match(r"^#\s*type:\s*\([^#]*\)\s*->\s*([^#]*)", comment)\<close>\<close>

definition match_return_comment :: "string \<Rightarrow> string option" where
  "match_return_comment comment =
     map_option (\<lambda>(group, after). takeWhile (\<lambda>c. c \<noteq> CHR ''#'') (dropWhile isspace after))
       (params_and_return comment)"

text \<open>\<^verbatim>\<open>re.match(r"^#\s*type:\s*([^#]*)", comment)\<close>\<close>

definition match_type_comment :: "string \<Rightarrow> string option" where
  "match_type_comment comment =
     map_option (takeWhile (\<lambda>c. c \<noteq> CHR ''#'')) (type_comment_body comment)"

subsection \<open>Parameters\<close>

text \<open>\<^verbatim>\<open>list.index\<close>: the first position of the element, \<open>None\<close> for \<^verbatim>\<open>ValueError\<close>.\<close>

fun index_of :: "'a list \<Rightarrow> 'a \<Rightarrow> nat option" where
  "index_of [] y = None"
| "index_of (x # xs) y = (if x = y then Some 0 else map_option Suc (index_of xs y))"

text \<open>
  \<^verbatim>\<open>_infer_param(function_value, param)\<close>. The parameters of
  \<^verbatim>\<open>param.parent\<close> and the comment after \<^verbatim>\<open>param.parent.parent\<close> are those of the
  function's definition.
\<close>

definition u_infer_param ::
  "'args env \<Rightarrow> function_value \<Rightarrow> param \<Rightarrow> exn + (val list \<times> diagnostic list)" where
  "u_infer_param env function_value param =
     (case annotation param of
        None \<Rightarrow>
          (let all_params = params (tree_node function_value) in
           case following_comment (tree_node function_value) of
             None \<Rightarrow> Inr (NO_VALUES, [])
           | Some comment \<Rightarrow>
               (case match_params_comment comment of
                  None \<Rightarrow> Inr (NO_VALUES, [])
                | Some group1 \<Rightarrow>
                    (case u_split_comment_param_declaration (parse env) group1 of
                       Inl e \<Rightarrow> Inl e
                     | Inr (params_comments, w1) \<Rightarrow>
                         (case index_of all_params param of
                            None \<Rightarrow> Inl ValueError
                          | Some index \<Rightarrow>
                              (let w2 = (if length params_comments \<noteq> length all_params
                                         then [CommentsLengthMismatch params_comments (length all_params)]
                                         else [])
                               in
                               if is_bound_method function_value \<and> index = 0 then
                                 Inr (NO_VALUES, w1 @ w2)
                               else
                                 (let index' = (if is_bound_method function_value
                                                then index - 1 else index)
                                  in
                                  if index' \<ge> length params_comments then
                                    Inr (NO_VALUES, w1 @ w2)
                                  else
                                    (case u_infer_annotation_string env
                                            (get_default_param_context function_value)
                                            (params_comments ! index') None of
                                       Inl e \<Rightarrow> Inl e
                                     | Inr (value_set, w3) \<Rightarrow>
                                         Inr (value_set, w1 @ w2 @ w3))))))))
      | Some annotation_node \<Rightarrow>
          infer_annotation env (get_default_param_context function_value) annotation_node)"

text \<open>
  \<^verbatim>\<open>infer_param(function_value, param, ignore_stars=False)\<close>. The two
  comprehensions build one \<^verbatim>\<open>GenericClass\<close> for every \<^verbatim>\<open>c\<close> of \<^verbatim>\<open>values\<close>;
  \<^verbatim>\<open>TupleGenericManager\<close> holds the tuple of value sets it is given. Memoization
  (\<^verbatim>\<open>inference_state_method_cache\<close>) does not change results and is left out.
\<close>

definition infer_param ::
  "'args env \<Rightarrow> function_value \<Rightarrow> param \<Rightarrow> bool \<Rightarrow> exn + (val list \<times> diagnostic list)" where
  "infer_param env function_value param ignore_stars =
     (case u_infer_param env function_value param of
        Inl e \<Rightarrow> Inl e
      | Inr (values, w) \<Rightarrow>
          if ignore_stars then Inr (values, w)
          else if star_count param = 1 then
            (let tuple_class = builtin_from_name env ''tuple'' in
             Inr (map (\<lambda>c. new_GenericClass env tuple_class [values]) values, w))
          else if star_count param = 2 then
            (let dct = builtin_from_name env ''dict'';
                 generics = [[builtin_from_name env ''str''], values]
             in Inr (map (\<lambda>c. new_GenericClass env dct generics) values, w))
          else Inr (values, w))"

text \<open>\<^verbatim>\<open>py__annotations__(funcdef)\<close>\<close>

definition py_annotations :: "funcdef \<Rightarrow> (string \<rightharpoonup> node)" where
  "py_annotations funcdef =
     (let dct = fold (\<lambda>function_param dct.
                        case annotation function_param of
                          None \<Rightarrow> dct
                        | Some param_annotation \<Rightarrow>
                            dct(param_name function_param \<mapsto> param_annotation))
                  (params funcdef) Map.empty
      in case return_annotation funcdef of
           None \<Rightarrow> dct
         | Some r \<Rightarrow> dct(''return'' \<mapsto> r))"

subsection \<open>Loops\<close>

text \<open>
  A \<^verbatim>\<open>for\<close> loop whose body updates an accumulator and may raise: the loop stops at
  the first exception and returns it. \<open>for_each xs d body\<close> runs \<open>body\<close> for every
  element of \<open>xs\<close> in order, starting from the accumulator \<open>d\<close>.
\<close>

fun for_each :: "'a list \<Rightarrow> 'd \<Rightarrow> ('a \<Rightarrow> 'd \<Rightarrow> exn + 'd) \<Rightarrow> exn + 'd" where
  "for_each [] d body = Inr d"
| "for_each (x # xs) d body =
     (case body x d of Inl e \<Rightarrow> Inl e | Inr d' \<Rightarrow> for_each xs d' body)"

lemma for_each_cong [fundef_cong]:
  "xs = ys \<Longrightarrow> d = d' \<Longrightarrow> (\<And>x a. x \<in> set ys \<Longrightarrow> f x a = g x a)
     \<Longrightarrow> for_each xs d f = for_each ys d' g"
  by (induction ys arbitrary: xs d d') (auto split: sum.splits)

subsection \<open>Type-variable discovery\<close>

text \<open>\<^verbatim>\<open>_unpack_subscriptlist(subscriptlist)\<close>: the nodes the generator yields.\<close>

definition u_unpack_subscriptlist :: "node \<Rightarrow> exn + node list" where
  "u_unpack_subscriptlist subscriptlist =
     (if ntype subscriptlist = ''subscriptlist'' then
        (case children subscriptlist of
           Inl e \<Rightarrow> Inl e
         | Inr cs \<Rightarrow>
             Inr (filter (\<lambda>subscript. ntype subscript \<noteq> ''subscript'') (every_second cs)))
      else if ntype subscriptlist \<noteq> ''subscript'' then Inr [subscriptlist]
      else Inr [])"

text \<open>\<^verbatim>\<open>_filter_type_vars(value_set, found=())\<close>\<close>

definition u_filter_type_vars :: "val list \<Rightarrow> val list \<Rightarrow> val list" where
  "u_filter_type_vars value_set found =
     found @ filter (\<lambda>type_var. isinstance type_var TypeVar \<and> type_var \<notin> set found) value_set"

lemma children_size: "children n = Inr cs \<Longrightarrow> c \<in> set cs \<Longrightarrow> size c < size n"
  by (cases n) (auto simp: less_Suc_eq_le size_list_estimation')

lemma every_second_subset: "set (every_second xs) \<subseteq> set xs"
  by (induction xs rule: every_second.induct) auto

lemma unpack_subscriptlist_size:
  "u_unpack_subscriptlist s = Inr subs \<Longrightarrow> x \<in> set subs \<Longrightarrow> size x \<le> size s"
  using every_second_subset children_size
  by (fastforce simp: u_unpack_subscriptlist_def split: if_splits sum.splits)

text \<open>
  The local function \<^verbatim>\<open>check_node\<close> of \<^verbatim>\<open>find_unknown_type_vars\<close>; the list
  \<^verbatim>\<open>found\<close> it updates is passed along. \<open>infer_here\<close> is
  \<^verbatim>\<open>context.infer_node\<close>.
\<close>

function check_node :: "(node \<Rightarrow> val list) \<Rightarrow> node \<Rightarrow> val list \<Rightarrow> exn + val list" where
  "check_node infer_here node found =
     (if ntype node \<in> set [''atom_expr'', ''power''] then
        (case children node of
           Inl e \<Rightarrow> Inl e
         | Inr cs \<Rightarrow>
             if cs = [] then Inl IndexError
             else
               (let trailer = last cs in
                if ntype trailer = ''trailer'' then
                  (case children trailer of
                     Inl e \<Rightarrow> Inl e
                   | Inr tcs \<Rightarrow>
                       if tcs = [] then Inl IndexError
                       else if eq_str (hd tcs) ''['' then
                         (if length tcs < 2 then Inl IndexError
                          else
                            (case u_unpack_subscriptlist (tcs ! 1) of
                               Inl e \<Rightarrow> Inl e
                             | Inr subscript_nodes \<Rightarrow>
                                 for_each subscript_nodes found
                                   (\<lambda>subscript_node found'.
                                      check_node infer_here subscript_node found')))
                       else Inr found)
                else Inr found))
      else Inr (u_filter_type_vars (infer_here node) found))"
  by pat_completeness auto
termination
proof (relation "measure (\<lambda>(i, n, f). size n)")
  show "wf (measure (\<lambda>(i, n, f). size n))" by simp
next
  fix infer_here :: "node \<Rightarrow> val list" and node :: node and found :: "val list"
    and cs trailer tcs subs and x :: node and a :: "val list"
  assume c: "children node = Inr cs" "cs \<noteq> []" "trailer = last cs"
    and t: "children trailer = Inr tcs" "\<not> length tcs < 2"
    and u: "u_unpack_subscriptlist (tcs ! 1) = Inr subs" "x \<in> set subs"
  have "size x \<le> size (tcs ! 1)" using u by (rule unpack_subscriptlist_size)
  also have "size (tcs ! 1) < size trailer" using t by (intro children_size [OF t(1)]) simp
  also have "size trailer < size node" using c by (intro children_size [OF c(1)]) simp
  finally show "((infer_here, x, a), (infer_here, node, found)) \<in> measure (\<lambda>(i, n, f). size n)"
    by simp
qed

declare check_node.simps [simp del]

text \<open>\<^verbatim>\<open>find_unknown_type_vars(context, node)\<close>\<close>

definition find_unknown_type_vars :: "'args env \<Rightarrow> ctx \<Rightarrow> node \<Rightarrow> exn + val list" where
  "find_unknown_type_vars env context node = check_node (infer_node env context) node []"

subsection \<open>Unification\<close>

text \<open>
  \<^verbatim>\<open>_merge_type_var_dicts(base_dict, new_dict)\<close> updates \<^verbatim>\<open>base_dict\<close> in place;
  the model returns the updated dictionary. Every key of \<^verbatim>\<open>new_dict\<close> is visited
  once and only the entry of that key changes, so the loop is written key by key.
\<close>

definition u_merge_type_var_dicts :: "type_var_dict \<Rightarrow> type_var_dict \<Rightarrow> type_var_dict" where
  "u_merge_type_var_dicts base_dict new_dict =
     (\<lambda>type_var_name.
        case new_dict type_var_name of
          None \<Rightarrow> base_dict type_var_name
        | Some values \<Rightarrow>
            if values \<noteq> {} then
              (case base_dict type_var_name of
                 Some base_values \<Rightarrow> Some (base_values \<union> values)
               | None \<Rightarrow> Some values)
            else base_dict type_var_name)"

text \<open>
  The statement \<^verbatim>\<open>_merge_type_var_dicts(type_var_dict, _infer_type_vars(...))\<close>:
  an exception of the call is passed on.
\<close>

definition merge_result :: "type_var_dict \<Rightarrow> exn + type_var_dict \<Rightarrow> exn + type_var_dict" where
  "merge_result type_var_dict r =
     (case r of Inl e \<Rightarrow> Inl e | Inr new_dict \<Rightarrow> Inr (u_merge_type_var_dicts type_var_dict new_dict))"

text \<open>
  The loop over the method resolution order in the general case of
  \<^verbatim>\<open>_infer_type_vars\<close>: \<open>Some parent_class\<close> is the class at which the body below
  the two tests runs, after which the loop is left by \<^verbatim>\<open>break\<close>; \<open>None\<close> when the
  loop ends without running it.
\<close>

fun mro_loop :: "string \<Rightarrow> val list \<Rightarrow> val option" where
  "mro_loop annotation_name [] = None"
| "mro_loop annotation_name (parent_class # rest) =
     (if annotation_name = py_name parent_class then
        (if \<not> isinstance parent_class DefineGenericBase then mro_loop annotation_name rest
         else Some parent_class)
      else mro_loop annotation_name rest)"

lemma generics_size:
  "get_generics v = Some given \<Longrightarrow> gs \<in> set given \<Longrightarrow> nested \<in> set gs \<Longrightarrow> size nested < size v"
proof -
  assume g: "get_generics v = Some given" and m: "gs \<in> set given" "nested \<in> set gs"
  have "size nested \<le> size_list size gs" using m(2) by (simp add: size_list_estimation')
  also have "\<dots> \<le> size_list (size_list size) given" using m(1) by (simp add: size_list_estimation')
  also have "\<dots> < size v" using g by (cases v) simp
  finally show ?thesis .
qed

lemma generics_size_second:
  "get_generics v = Some given \<Longrightarrow> length given = 2 \<Longrightarrow> nested \<in> set (given ! Suc 0)
     \<Longrightarrow> size nested < size v"
proof -
  assume g: "get_generics v = Some given" and l: "length given = 2"
    and n: "nested \<in> set (given ! Suc 0)"
  from l have "given ! Suc 0 \<in> set given" by (intro nth_mem) simp
  with g show ?thesis using n by (rule generics_size)
qed

text \<open>
  \<^verbatim>\<open>_infer_type_vars(annotation_value, value_set, is_class_value=False)\<close>.
  \<^verbatim>\<open>given[0]\<close>, \<^verbatim>\<open>given[1]\<close> and \<^verbatim>\<open>annotation_generics[0]\<close> are \<open>hd given\<close>,
  \<open>given ! 1\<close> and \<open>hd annotation_generics\<close>, each behind the test that the index
  exists; the unpacking \<^verbatim>\<open>tuple_annotation, = ...\<close> raises \<^verbatim>\<open>ValueError\<close> unless
  there is exactly one value.
\<close>

function u_infer_type_vars ::
  "'args env \<Rightarrow> val \<Rightarrow> val list \<Rightarrow> bool \<Rightarrow> exn + type_var_dict" where
  "u_infer_type_vars env annotation_value value_set is_class_value =
     (let annotation_name = py_name annotation_value in
      if isinstance annotation_value TypeVar then
        (if \<not> is_class_value then
           Inr [annotation_name \<mapsto> set (py_class_of_set env value_set)]
         else Inr [annotation_name \<mapsto> set value_set])
      else if isinstance annotation_value TypingClassValueWithIndex then
        (if annotation_name = ''Type'' then
           (case get_generics annotation_value of
              None \<Rightarrow> Inl AttributeError
            | Some given \<Rightarrow>
                if given \<noteq> [] then
                  (if is_class_value then
                     for_each value_set Map.empty (\<lambda>element type_var_dict.
                       if annotation_name = py_name element then
                         (case get_generics element of
                            None \<Rightarrow> Inl AttributeError
                          | Some actual_generics \<Rightarrow>
                              for_each (zip given actual_generics) type_var_dict
                                (\<lambda>(annotation_generics_set, actual_generic_set) type_var_dict.
                                   for_each annotation_generics_set type_var_dict
                                     (\<lambda>nested_annotation_value type_var_dict.
                                        merge_result type_var_dict
                                          (u_infer_type_vars env nested_annotation_value
                                             actual_generic_set True))))
                       else Inr type_var_dict)
                   else
                     for_each (hd given) Map.empty (\<lambda>nested_annotation_value type_var_dict.
                       merge_result type_var_dict
                         (u_infer_type_vars env nested_annotation_value value_set True)))
                else Inr Map.empty)
         else if annotation_name = ''Callable'' then
           (case get_generics annotation_value of
              None \<Rightarrow> Inl AttributeError
            | Some given \<Rightarrow>
                if length given = 2 then
                  for_each (given ! 1) Map.empty (\<lambda>nested_annotation_value type_var_dict.
                    merge_result type_var_dict
                      (u_infer_type_vars env nested_annotation_value
                         (execute_annotation env value_set) False))
                else Inr Map.empty)
         else if annotation_name = ''Tuple'' then
           for_each value_set Map.empty (\<lambda>element type_var_dict.
             case get_annotated_class_object element of
               None \<Rightarrow> Inl AttributeError
             | Some class_object \<Rightarrow>
                 (let py_class = (if \<not> isinstance class_object GenericClass then element
                                  else class_object)
                  in
                  if \<not> isinstance py_class DefineGenericBase then Inr type_var_dict
                  else
                    (case get_generics annotation_value of
                       None \<Rightarrow> Inl AttributeError
                     | Some annotation_generics \<Rightarrow>
                         (case execute_annotation_of env annotation_value of
                            [tuple_annotation] \<Rightarrow>
                              if is_homogenous env tuple_annotation then
                                (if annotation_generics = [] then Inl IndexError
                                 else
                                   for_each (hd annotation_generics) type_var_dict
                                     (\<lambda>nested_annotation_value type_var_dict.
                                        merge_result type_var_dict
                                          (u_infer_type_vars env nested_annotation_value
                                             (merge_types_of_iterate env value_set) False)))
                              else
                                (case get_generics py_class of
                                   None \<Rightarrow> Inl AttributeError
                                 | Some actual_generics \<Rightarrow>
                                     for_each (zip annotation_generics actual_generics) type_var_dict
                                       (\<lambda>(annotation_generics_set, actual_generic_set) type_var_dict.
                                          for_each annotation_generics_set type_var_dict
                                            (\<lambda>nested_annotation_value type_var_dict.
                                               merge_result type_var_dict
                                                 (u_infer_type_vars env nested_annotation_value
                                                    actual_generic_set True))))
                          | _ \<Rightarrow> Inl ValueError))))
         else Inr Map.empty)
      else if isinstance annotation_value GenericClass then
        (if annotation_name = ''Iterable'' \<and> \<not> is_class_value then
           (case get_generics annotation_value of
              None \<Rightarrow> Inl AttributeError
            | Some given \<Rightarrow>
                if given \<noteq> [] then
                  for_each (hd given) Map.empty (\<lambda>nested_annotation_value type_var_dict.
                    merge_result type_var_dict
                      (u_infer_type_vars env nested_annotation_value
                         (merge_types_of_iterate env value_set) False))
                else Inr Map.empty)
         else
           for_each value_set Map.empty (\<lambda>element type_var_dict.
             case is_instance element of
               None \<Rightarrow> Inr type_var_dict
             | Some instance_flag \<Rightarrow>
                 (case (if instance_flag then get_annotated_class_object element
                        else Some element) of
                    None \<Rightarrow> Inl AttributeError
                  | Some py_class \<Rightarrow>
                      (case py_mro py_class of
                         None \<Rightarrow> Inl AttributeError
                       | Some mro \<Rightarrow>
                           (case mro_loop annotation_name mro of
                              None \<Rightarrow> Inr type_var_dict
                            | Some parent_class \<Rightarrow>
                                (case get_generics annotation_value of
                                   None \<Rightarrow> Inl AttributeError
                                 | Some annotation_generics \<Rightarrow>
                                     (case get_generics parent_class of
                                        None \<Rightarrow> Inl AttributeError
                                      | Some actual_generics \<Rightarrow>
                                          for_each (zip annotation_generics actual_generics)
                                            type_var_dict
                                            (\<lambda>(annotation_generics_set, actual_generic_set) type_var_dict.
                                               for_each annotation_generics_set type_var_dict
                                                 (\<lambda>nested_annotation_value type_var_dict.
                                                    merge_result type_var_dict
                                                      (u_infer_type_vars env nested_annotation_value
                                                         actual_generic_set True))))))))))
      else Inr Map.empty)"
  by pat_completeness auto
termination
  by (relation "measure (\<lambda>(env, a, vs, b). size a)")
    (auto intro: generics_size generics_size [OF _ hd_in_set] generics_size_second
          dest: set_zip_leftD)

declare u_infer_type_vars.simps [simp del]

subsection \<open>Return types\<close>

text \<open>\<^verbatim>\<open>infer_type_vars_for_execution(function, arguments, annotation_dict)\<close>\<close>

definition infer_type_vars_for_execution ::
  "'args env \<Rightarrow> function_value \<Rightarrow> 'args \<Rightarrow> (string \<rightharpoonup> node) \<Rightarrow> exn + type_var_dict" where
  "infer_type_vars_for_execution env function arguments annotation_dict =
     (let context = get_default_param_context function in
      for_each (get_executed_param_names env function arguments) Map.empty
        (\<lambda>executed_param_name annotation_variable_results.
           case annotation_dict (string_name executed_param_name) of
             None \<Rightarrow> Inr annotation_variable_results
           | Some annotation_node \<Rightarrow>
               (case find_unknown_type_vars env context annotation_node of
                  Inl e \<Rightarrow> Inl e
                | Inr annotation_variables \<Rightarrow>
                    if annotation_variables \<noteq> [] then
                      (let annotation_value_set = infer_node env context annotation_node;
                           kind = get_kind executed_param_name;
                           actual_value_set = infer executed_param_name;
                           actual_value_set' =
                             (if kind = VAR_POSITIONAL then
                                merge_types_of_iterate env actual_value_set
                              else if kind = VAR_KEYWORD then
                                try_merge_dict_values env actual_value_set
                              else actual_value_set)
                       in for_each annotation_value_set annotation_variable_results
                            (\<lambda>ann results.
                               merge_result results
                                 (u_infer_type_vars env ann actual_value_set' False)))
                    else Inr annotation_variable_results)))"

text \<open>
  \<^verbatim>\<open>infer_return_types(function, arguments)\<close>. The result says which
  \<^verbatim>\<open>return\<close> statement of the source produced the values: one of the three
  \<^verbatim>\<open>return NO_VALUES\<close>, the execution of the comment annotation, the execution of
  the annotation values as they are (\<^verbatim>\<open>if not unknown_type_vars\<close>), or the last
  statement, which first substitutes the type variables found by
  \<^verbatim>\<open>infer_type_vars_for_execution\<close>.
\<close>

datatype return_path = NoAnnotation | CommentAnnotation | DirectExecution | TypeVarSubstitution

definition infer_return_types ::
  "'args env \<Rightarrow> function_value \<Rightarrow> 'args
     \<Rightarrow> exn + (return_path \<times> val list \<times> diagnostic list)" where
  "infer_return_types env function arguments =
     (let all_annotations = py_annotations (tree_node function) in
      case all_annotations ''return'' of
        None \<Rightarrow>
          (case following_comment (tree_node function) of
             None \<Rightarrow> Inr (NoAnnotation, NO_VALUES, [])
           | Some comment \<Rightarrow>
               (case match_return_comment comment of
                  None \<Rightarrow> Inr (NoAnnotation, NO_VALUES, [])
                | Some group1 \<Rightarrow>
                    (case u_infer_annotation_string env (get_default_param_context function)
                            (strip group1) None of
                       Inl e \<Rightarrow> Inl e
                     | Inr (value_set, w) \<Rightarrow>
                         Inr (CommentAnnotation, execute_annotation env value_set, w))))
      | Some annotation_node \<Rightarrow>
          (let context = get_default_param_context function in
           case find_unknown_type_vars env context annotation_node of
             Inl e \<Rightarrow> Inl e
           | Inr unknown_type_vars \<Rightarrow>
               (case infer_annotation env context annotation_node of
                  Inl e \<Rightarrow> Inl e
                | Inr (annotation_values, w) \<Rightarrow>
                    if unknown_type_vars = [] then
                      Inr (DirectExecution, execute_annotation env annotation_values, w)
                    else
                      (case infer_type_vars_for_execution env function arguments
                              all_annotations of
                         Inl e \<Rightarrow> Inl e
                       | Inr type_var_dict \<Rightarrow>
                           Inr (TypeVarSubstitution,
                                execute_annotation env
                                  (concat (map (\<lambda>ann.
                                      if isinstance ann DefineGenericBase \<or> isinstance ann TypeVar
                                      then define_generics env ann type_var_dict
                                      else [ann]) annotation_values)),
                                w)))))"

subsection \<open>Comment hints of assignments\<close>

text \<open>
  The \<^verbatim>\<open>for ... else\<close> loop of \<^verbatim>\<open>_find_type_from_comment_hint\<close> that finds
  the position of \<^verbatim>\<open>name\<close> among the targets: operators are not counted, and
  \<open>None\<close> is the \<^verbatim>\<open>else\<close> branch, taken when the name is not found. Nodes of the
  model carry no position, so two leaves of the same type, prefix and value are the
  same node.
\<close>

fun varlist_index :: "node list \<Rightarrow> node \<Rightarrow> nat \<Rightarrow> nat option" where
  "varlist_index [] name index = None"
| "varlist_index (child # rest) name index =
     (if child = name then Some index
      else if ntype child = ''operator'' then varlist_index rest name index
      else varlist_index rest name (index + 1))"

text \<open>
  \<^verbatim>\<open>_find_type_from_comment_hint(context, node, varlist, name)\<close>; \<open>comment\<close>
  is \<^verbatim>\<open>parser_utils.get_following_comment_same_line(node)\<close>. The index is
  \<open>Some None\<close> when the target is a single name (\<^verbatim>\<open>index = None\<close>).
\<close>

definition u_find_type_from_comment_hint ::
  "'args env \<Rightarrow> ctx \<Rightarrow> string option \<Rightarrow> node \<Rightarrow> node \<Rightarrow> exn + (val list \<times> diagnostic list)" where
  "u_find_type_from_comment_hint env context comment varlist name =
     (case (if ntype varlist \<in> set [''testlist_star_expr'', ''exprlist'', ''testlist''] then
              (case children varlist of
                 Inl e \<Rightarrow> Inl e
               | Inr cs \<Rightarrow>
                   (case varlist_index cs name 0 of
                      None \<Rightarrow> Inr None
                    | Some i \<Rightarrow> Inr (Some (Some i))))
            else Inr (Some None)) of
        Inl e \<Rightarrow> Inl e
      | Inr None \<Rightarrow> Inr ([], [])
      | Inr (Some index) \<Rightarrow>
          (case comment of
             None \<Rightarrow> Inr ([], [])
           | Some c \<Rightarrow>
               (case match_type_comment c of
                  None \<Rightarrow> Inr ([], [])
                | Some group1 \<Rightarrow>
                    (case u_infer_annotation_string env context (strip group1) index of
                       Inl e \<Rightarrow> Inl e
                     | Inr (value_set, w) \<Rightarrow> Inr (execute_annotation env value_set, w)))))"

section \<open>Notions of the statements and example inputs\<close>

text \<open>
  The value set a binding map holds for a variable, empty when the variable has no
  entry; and the maps that hold no empty value set, as every accumulator of the module
  does (it starts as \<^verbatim>\<open>{}\<close> and is only changed by \<^verbatim>\<open>_merge_type_var_dicts\<close>).
\<close>

definition bindings :: "type_var_dict \<Rightarrow> string \<Rightarrow> val set" where
  "bindings d k = (case d k of None \<Rightarrow> {} | Some vs \<Rightarrow> vs)"

definition no_empty_entry :: "type_var_dict \<Rightarrow> bool" where
  "no_empty_entry d \<longleftrightarrow> (\<forall>k. d k \<noteq> Some {})"

text \<open>
  Values for the examples: classes that are not generic (the first entry of the method
  resolution order is the class itself, kept without its own order), type variables,
  and a two-element tuple literal.
\<close>

definition class_view :: "nat \<Rightarrow> string \<Rightarrow> val" where
  "class_view n name = Val [] name n None (Some False) None None"

definition plain_class :: "nat \<Rightarrow> string \<Rightarrow> val list \<Rightarrow> val" where
  "plain_class n name bases =
     Val [] name n None (Some False) None (Some (class_view n name # bases))"

definition int_class :: val where
  "int_class = plain_class 1 ''int'' []"

definition str_class :: val where
  "str_class = plain_class 2 ''str'' []"

definition type_var :: "nat \<Rightarrow> string \<Rightarrow> val" where
  "type_var n name = Val [TypeVar] name n None None None None"

definition pair_value :: val where
  "pair_value = Val [] ''tuple'' 50 None (Some True) None None"

text \<open>
  Trees as parso builds them: for the declaration texts \<^verbatim>\<open>x\<close> and
  \<^verbatim>\<open>foo, Bar[baz, biz]\<close> (a module whose first child is the expression, the
  statement node being dropped when the text has no final newline), for the annotation
  strings \<^verbatim>\<open>int, str\<close> and \<^verbatim>\<open>T\<close>, and for subscripts with a slice.
\<close>

definition name_leaf :: "string \<Rightarrow> string \<Rightarrow> node" where
  "name_leaf p v = Leaf ''name'' p v"

definition operator :: "string \<Rightarrow> string \<Rightarrow> node" where
  "operator p v = Leaf ''operator'' p v"

definition tree_x :: node where
  "tree_x = BaseNode ''file_input'' [name_leaf [] ''x'', Leaf ''endmarker'' [] []]"

definition tree_foo_bar :: node where
  "tree_foo_bar =
     BaseNode ''file_input''
       [BaseNode ''testlist_star_expr''
          [name_leaf [] ''foo'',
           operator [] '','',
           BaseNode ''atom_expr''
             [name_leaf '' '' ''Bar'',
              BaseNode ''trailer''
                [operator [] ''['',
                 BaseNode ''subscriptlist''
                   [name_leaf [] ''baz'', operator [] '','', name_leaf '' '' ''biz''],
                 operator [] '']'']]],
        Leaf ''endmarker'' [] []]"

definition tree_int_str :: node where
  "tree_int_str =
     BaseNode ''eval_input''
       [BaseNode ''testlist'' [name_leaf [] ''int'', operator [] '','', name_leaf '' '' ''str''],
        Leaf ''endmarker'' [] []]"

definition tree_T :: node where
  "tree_T = BaseNode ''eval_input'' [name_leaf [] ''T'', Leaf ''endmarker'' [] []]"

definition slice_b_c :: node where
  "slice_b_c = BaseNode ''subscript'' [name_leaf [] ''b'', operator [] '':'', name_leaf [] ''c'']"

definition subscriptlist_a_slice :: node where
  "subscriptlist_a_slice =
     BaseNode ''subscriptlist'' [name_leaf [] ''a'', operator [] '','', slice_b_c]"

text \<open>The expression \<^verbatim>\<open>X[s]\<close> for a subscript \<open>s\<close>.\<close>

definition subscripted :: "node \<Rightarrow> node" where
  "subscripted s =
     BaseNode ''atom_expr''
       [name_leaf [] ''X'', BaseNode ''trailer'' [operator [] ''['', s, operator [] '']'']]"

text \<open>
  Collaborators for the examples: a parser that knows the texts above and rejects
  every other text, an inference engine that knows the names \<^verbatim>\<open>T\<close> (a type
  variable) and \<^verbatim>\<open>int\<close>, the tuple \<^verbatim>\<open>int, str\<close> and a string literal
  whose text \<^verbatim>\<open>Foo(\<close> is not an expression, a
  \<^verbatim>\<open>py__simple_getitem__\<close> that fails, as jedi's sequence literal does, when the
  index is out of range, and calls that bind an instance of \<^verbatim>\<open>int\<close> to every
  parameter. Executing a class as an annotation gives its instance; substituting a
  binding map into a type variable bound to \<^verbatim>\<open>int\<close> gives \<^verbatim>\<open>int\<close>.
\<close>

definition string_leaf :: node where
  "string_leaf = Leaf ''string'' [] (CHR 0x22 # ''Foo('' @ [CHR 0x22])"

definition forward_reference :: val where
  "forward_reference = Val [] ''str'' 60 None (Some True) None None"

definition example_parse :: "string \<Rightarrow> exn + node" where
  "example_parse text =
     (if text = ''x'' then Inr tree_x
      else if text = ''foo, Bar[baz, biz]'' then Inr tree_foo_bar
      else Inl ParserSyntaxError)"

definition example_grammar_parse :: "string \<Rightarrow> exn + node" where
  "example_grammar_parse text =
     (if text = ''int, str'' then Inr tree_int_str
      else if text = ''T'' then Inr tree_T
      else Inl ParserSyntaxError)"

definition example_infer_node :: "ctx \<Rightarrow> node \<Rightarrow> val list" where
  "example_infer_node c n =
     (if n = name_leaf [] ''T'' then [type_var 10 ''T'']
      else if n = name_leaf [] ''int'' then [int_class]
      else if n = tree_int_str then [pair_value]
      else if n = tree_T then [type_var 10 ''T'']
      else if n = string_leaf then [forward_reference]
      else [])"

definition example_py_iter :: "val \<Rightarrow> val list list" where
  "example_py_iter v = (if v = pair_value then [[int_class], [str_class]] else [])"

definition instance_of :: "val \<Rightarrow> val" where
  "instance_of c = Val [] (py_name c) (100 + decl c) None (Some True) (Some c) None"

definition example_env :: "unit env" where
  "example_env =
     \<lparr> parse = example_parse,
       grammar_parse = example_grammar_parse,
       infer_node = example_infer_node,
       string_value = (\<lambda>v. if v = forward_reference then Some ''Foo('' else None),
       array_type = (\<lambda>v. if v = pair_value then Some ''tuple'' else None),
       py_iter = example_py_iter,
       py_simple_getitem = (\<lambda>vs i.
         if list_all (\<lambda>v. i < length (example_py_iter v)) vs
         then Inr (concat (map (\<lambda>v. example_py_iter v ! i) vs))
         else Inl SimpleGetItemNotFound),
       py_class_of_set =
         map (\<lambda>v. case get_annotated_class_object v of None \<Rightarrow> v | Some c \<Rightarrow> c),
       execute_annotation = map instance_of,
       execute_annotation_of = (\<lambda>v. [instance_of v]),
       is_homogenous = (\<lambda>v. False),
       merge_types_of_iterate = (\<lambda>vs. vs),
       try_merge_dict_values = (\<lambda>vs. vs),
       define_generics = (\<lambda>v d.
         if isinstance v TypeVar \<and> d (py_name v) = Some {int_class} then [int_class]
         else [v]),
       builtin_from_name = (\<lambda>name. plain_class 0 name []),
       new_GenericClass = (\<lambda>c gs.
         Val [GenericClass, DefineGenericBase] (py_name c) 0 (Some gs) (Some False) None None),
       get_executed_param_names = (\<lambda>f a.
         map (\<lambda>p. \<lparr> string_name = param_name p, get_kind = POSITIONAL_OR_KEYWORD,
                     infer = [instance_of int_class] \<rparr>)
           (params (tree_node f))) \<rparr>"

text \<open>The targets of \<^verbatim>\<open>a, b = ...\<close>.\<close>

definition varlist_a_b :: node where
  "varlist_a_b =
     BaseNode ''testlist_star_expr''
       [name_leaf [] ''a'', operator [] '','', name_leaf '' '' ''b'']"

text \<open>A function with one parameter \<^verbatim>\<open>x\<close>, no annotation, and a comment after its header.\<close>

definition param_x :: param where
  "param_x = \<lparr> param_name = ''x'', annotation = None, star_count = 0 \<rparr>"

definition function_with_comment :: "string \<Rightarrow> function_value" where
  "function_with_comment comment =
     \<lparr> tree_node = \<lparr> params = [param_x], return_annotation = None,
                     following_comment = Some comment \<rparr>,
       is_bound_method = False,
       get_default_param_context = 0 \<rparr>"

text \<open>
  The pairing loop that the source writes three times: annotation and actual
  generic-argument groups are paired positionally, and every annotation value of a
  group is unified class-level with the actual group.
\<close>

definition pair_generics ::
  "'args env \<Rightarrow> val list list \<Rightarrow> val list list \<Rightarrow> type_var_dict \<Rightarrow> exn + type_var_dict" where
  "pair_generics env annotation_generics actual_generics type_var_dict =
     for_each (zip annotation_generics actual_generics) type_var_dict
       (\<lambda>(annotation_generics_set, actual_generic_set) type_var_dict.
          for_each annotation_generics_set type_var_dict
            (\<lambda>nested_annotation_value type_var_dict.
               merge_result type_var_dict
                 (u_infer_type_vars env nested_annotation_value actual_generic_set True)))"

text \<open>
  What the amended claim C2 says the general case does with one actual value, written
  from its words: a value without \<^verbatim>\<open>is_instance\<close> contributes nothing; otherwise
  the class of the value is taken, and the first ancestor of its method resolution
  order whose name is the annotation's and that is parameterized is paired with the
  annotation.
\<close>

definition unify_with_ancestor ::
  "'args env \<Rightarrow> val \<Rightarrow> val \<Rightarrow> type_var_dict \<Rightarrow> exn + type_var_dict" where
  "unify_with_ancestor env annotation_value element type_var_dict =
     (case is_instance element of
        None \<Rightarrow> Inr type_var_dict
      | Some instance_flag \<Rightarrow>
          (case (if instance_flag then get_annotated_class_object element else Some element) of
             None \<Rightarrow> Inl AttributeError
           | Some py_class \<Rightarrow>
               (case py_mro py_class of
                  None \<Rightarrow> Inl AttributeError
                | Some mro \<Rightarrow>
                    (case find (\<lambda>parent_class. py_name parent_class = py_name annotation_value
                                  \<and> isinstance parent_class DefineGenericBase) mro of
                       None \<Rightarrow> Inr type_var_dict
                     | Some parent_class \<Rightarrow>
                         (case get_generics annotation_value of
                            None \<Rightarrow> Inl AttributeError
                          | Some annotation_generics \<Rightarrow>
                              (case get_generics parent_class of
                                 None \<Rightarrow> Inl AttributeError
                               | Some actual_generics \<Rightarrow>
                                   pair_generics env annotation_generics actual_generics
                                     type_var_dict))))))"

text \<open>
  More example values: a parameterized class; the annotation \<^verbatim>\<open>Foo[T]\<close> and an
  instance of a class \<^verbatim>\<open>Foo\<close> that is not generic and derives from a generic
  class of the same name, \<^verbatim>\<open>Foo[int]\<close>; the annotation \<^verbatim>\<open>Pair[T, T']\<close> with
  two type variables of different declarations that are both spelled \<^verbatim>\<open>T\<close>, and an
  instance of \<^verbatim>\<open>Pair[int, str]\<close>; the annotation \<^verbatim>\<open>Type[T]\<close>.
\<close>

definition generic_class :: "nat \<Rightarrow> string \<Rightarrow> val list list \<Rightarrow> val" where
  "generic_class n name generics =
     Val [GenericClass, DefineGenericBase] name n (Some generics) (Some False) None None"

definition foo_annotation :: val where
  "foo_annotation = generic_class 20 ''Foo'' [[type_var 10 ''T'']]"

definition foo_subclass :: val where
  "foo_subclass =
     Val [] ''Foo'' 21 None (Some False) None
       (Some [class_view 21 ''Foo'', generic_class 22 ''Foo'' [[int_class]],
              class_view 3 ''object''])"

definition foo_instance :: val where
  "foo_instance = Val [] ''Foo'' 23 None (Some True) (Some foo_subclass) None"

definition pair_annotation :: val where
  "pair_annotation = generic_class 30 ''Pair'' [[type_var 10 ''T''], [type_var 11 ''T'']]"

definition pair_int_str :: val where
  "pair_int_str =
     Val [GenericClass, DefineGenericBase] ''Pair'' 31 (Some [[int_class], [str_class]])
       (Some False) None
       (Some [generic_class 31 ''Pair'' [[int_class], [str_class]], class_view 3 ''object''])"

definition pair_instance :: val where
  "pair_instance = Val [] ''Pair'' 32 None (Some True) (Some pair_int_str) None"

definition type_of_T :: val where
  "type_of_T =
     Val [TypingClassValueWithIndex, DefineGenericBase] ''Type'' 40 (Some [[type_var 10 ''T'']])
       None None None"

text \<open>Variadic parameters, and functions without a comment.\<close>

definition param_args :: "node option \<Rightarrow> param" where
  "param_args a = \<lparr> param_name = ''args'', annotation = a, star_count = 1 \<rparr>"

definition param_kwargs :: "node option \<Rightarrow> param" where
  "param_kwargs a = \<lparr> param_name = ''kwargs'', annotation = a, star_count = 2 \<rparr>"

definition function_of :: "param list \<Rightarrow> node option \<Rightarrow> function_value" where
  "function_of ps r =
     \<lparr> tree_node = \<lparr> params = ps, return_annotation = r, following_comment = None \<rparr>,
       is_bound_method = False,
       get_default_param_context = 0 \<rparr>"

definition param_x_T :: param where
  "param_x_T = \<lparr> param_name = ''x'', annotation = Some (name_leaf [] ''T''), star_count = 0 \<rparr>"

section \<open>Properties\<close>

subsection \<open>Merging binding maps\<close>

lemma bindings_merge:
  "bindings (u_merge_type_var_dicts a b) k = bindings a k \<union> bindings b k"
  by (auto simp: bindings_def u_merge_type_var_dicts_def split: option.splits)

lemma bindings_empty: "bindings Map.empty k = {}"
  by (simp add: bindings_def)

lemma merge_nothing: "bindings b k = {} \<Longrightarrow> u_merge_type_var_dicts a b k = a k"
  by (auto simp: bindings_def u_merge_type_var_dicts_def split: option.splits)

lemma no_empty_entry_merge:
  "no_empty_entry a \<Longrightarrow> no_empty_entry (u_merge_type_var_dicts a b)"
  by (auto simp: no_empty_entry_def u_merge_type_var_dicts_def split: option.splits)

lemma no_empty_entry_lookup:
  "no_empty_entry d \<Longrightarrow> d k = (if bindings d k = {} then None else Some (bindings d k))"
  by (cases "d k") (auto simp: no_empty_entry_def bindings_def)

lemma merge_assoc:
  "u_merge_type_var_dicts (u_merge_type_var_dicts a b) c
     = u_merge_type_var_dicts a (u_merge_type_var_dicts b c)"
  by (rule ext) (auto simp: u_merge_type_var_dicts_def split: option.splits)

lemma merge_commute:
  assumes "no_empty_entry a" "no_empty_entry b"
  shows "u_merge_type_var_dicts a b = u_merge_type_var_dicts b a"
proof (rule ext)
  fix k
  have "no_empty_entry (u_merge_type_var_dicts a b)" "no_empty_entry (u_merge_type_var_dicts b a)"
    using assms by (simp_all add: no_empty_entry_merge)
  from no_empty_entry_lookup [OF this(1), of k] no_empty_entry_lookup [OF this(2), of k]
  show "u_merge_type_var_dicts a b k = u_merge_type_var_dicts b a k"
    by (simp only: bindings_merge Un_commute)
qed

lemma no_empty_entry_foldl:
  "no_empty_entry acc \<Longrightarrow> no_empty_entry (foldl u_merge_type_var_dicts acc ds)"
  by (induction ds arbitrary: acc) (simp_all add: no_empty_entry_merge)

lemma bindings_foldl:
  "bindings (foldl u_merge_type_var_dicts acc ds) k
     = bindings acc k \<union> (\<Union>d\<in>set ds. bindings d k)"
  by (induction ds arbitrary: acc) (auto simp: bindings_merge)

lemma foldl_merge_lookup:
  "foldl u_merge_type_var_dicts Map.empty ds k =
     (if (\<Union>d\<in>set ds. bindings d k) = {} then None
      else Some (\<Union>d\<in>set ds. bindings d k))"
proof -
  have "no_empty_entry (foldl u_merge_type_var_dicts Map.empty ds)"
    by (rule no_empty_entry_foldl) (simp add: no_empty_entry_def)
  from no_empty_entry_lookup [OF this, of k] show ?thesis
    by (simp only: bindings_foldl bindings_empty Un_empty_left)
qed

lemma foldl_merge_set:
  "set ds = set ds' \<Longrightarrow>
   foldl u_merge_type_var_dicts Map.empty ds = foldl u_merge_type_var_dicts Map.empty ds'"
  by (rule ext) (simp only: foldl_merge_lookup)

text \<open>
  Claim C5. Merging binding maps is union per variable and never overwrites: after
  \<^verbatim>\<open>_merge_type_var_dicts(a, b)\<close> every variable is bound to the union of what
  \<open>a\<close> and \<open>b\<close> bound it to, and a map that binds nothing to a variable leaves the
  entry of that variable as it was. The merge is associative; it is commutative on
  maps that hold no empty value set, which is what every accumulator of the module is;
  and merging the maps of a collection of arguments into an empty accumulator, one
  after the other, gives a map that depends only on which maps were merged, not on
  their order (nor on repetitions).
\<close>

theorem merge_type_var_dicts_union_any_order:
  "(\<forall>k. bindings (u_merge_type_var_dicts a b) k = bindings a k \<union> bindings b k)
   \<and> (\<forall>k. bindings b k = {} \<longrightarrow> u_merge_type_var_dicts a b k = a k)
   \<and> u_merge_type_var_dicts (u_merge_type_var_dicts a b) c
        = u_merge_type_var_dicts a (u_merge_type_var_dicts b c)
   \<and> (no_empty_entry a \<and> no_empty_entry b
        \<longrightarrow> u_merge_type_var_dicts a b = u_merge_type_var_dicts b a)
   \<and> (set ds = set ds'
        \<longrightarrow> foldl u_merge_type_var_dicts Map.empty ds
              = foldl u_merge_type_var_dicts Map.empty ds')"
proof (intro conjI allI impI)
  fix k
  show "bindings (u_merge_type_var_dicts a b) k = bindings a k \<union> bindings b k"
    by (rule bindings_merge)
next
  fix k
  assume "bindings b k = {}"
  then show "u_merge_type_var_dicts a b k = a k" by (rule merge_nothing)
next
  show "u_merge_type_var_dicts (u_merge_type_var_dicts a b) c
        = u_merge_type_var_dicts a (u_merge_type_var_dicts b c)"
    by (rule merge_assoc)
next
  assume "no_empty_entry a \<and> no_empty_entry b"
  then show "u_merge_type_var_dicts a b = u_merge_type_var_dicts b a"
    by (simp only: merge_commute)
next
  assume "set ds = set ds'"
  then show "foldl u_merge_type_var_dicts Map.empty ds
              = foldl u_merge_type_var_dicts Map.empty ds'"
    by (rule foldl_merge_set)
qed

theorem merge_type_var_dicts_union_any_order_witness:
  "u_merge_type_var_dicts [''T'' \<mapsto> {int_class}] [''U'' \<mapsto> {str_class}]
     = u_merge_type_var_dicts [''U'' \<mapsto> {str_class}] [''T'' \<mapsto> {int_class}]
   \<and> u_merge_type_var_dicts Map.empty [''U'' \<mapsto> {}] ''U'' = None
   \<and> foldl u_merge_type_var_dicts Map.empty [[''T'' \<mapsto> {int_class}], [''T'' \<mapsto> {str_class}]]
       = foldl u_merge_type_var_dicts Map.empty
           [[''T'' \<mapsto> {str_class}], [''T'' \<mapsto> {int_class}], [''T'' \<mapsto> {str_class}]]"
proof (intro conjI)
  have ne: "no_empty_entry [''T'' \<mapsto> {int_class}] \<and> no_empty_entry [''U'' \<mapsto> {str_class}]"
    by (simp add: no_empty_entry_def)
  with merge_type_var_dicts_union_any_order
      [of "[''T'' \<mapsto> {int_class}]" "[''U'' \<mapsto> {str_class}]"]
  show "u_merge_type_var_dicts [''T'' \<mapsto> {int_class}] [''U'' \<mapsto> {str_class}]
     = u_merge_type_var_dicts [''U'' \<mapsto> {str_class}] [''T'' \<mapsto> {int_class}]"
    by blast
next
  have "bindings [''U'' \<mapsto> {}] ''U'' = {}" by (simp add: bindings_def)
  with merge_type_var_dicts_union_any_order [of Map.empty "[''U'' \<mapsto> {}]"]
  have "u_merge_type_var_dicts Map.empty [''U'' \<mapsto> {}] ''U'' = Map.empty ''U''" by blast
  then show "u_merge_type_var_dicts Map.empty [''U'' \<mapsto> {}] ''U'' = None" by simp
next
  let ?a = "[''T'' \<mapsto> {int_class}]" and ?b = "[''T'' \<mapsto> {str_class}]"
  have "set [?a, ?b] = set [?b, ?a, ?b]" by auto
  with merge_type_var_dicts_union_any_order [of _ _ _ "[?a, ?b]" "[?b, ?a, ?b]"]
  show "foldl u_merge_type_var_dicts Map.empty [?a, ?b]
       = foldl u_merge_type_var_dicts Map.empty [?b, ?a, ?b]"
    by blast
qed

subsection \<open>The comment-annotation splitter\<close>

lemma strip_append_space:
  assumes "list_all isspace ws"
  shows "strip (a @ ws) = strip a"
proof -
  have ws: "dropWhile isspace ws = []" "dropWhile isspace (rev ws) = []"
    using assms by (simp_all add: list_all_iff)
  show ?thesis
  proof (cases "list_all isspace a")
    case True
    then have "dropWhile isspace a = []" "dropWhile isspace (a @ ws) = []"
      using assms by (auto simp: list_all_iff)
    then show ?thesis by (simp only: strip_def)
  next
    case False
    then obtain x where x: "x \<in> set a" "\<not> isspace x" by (auto simp: list_all_iff)
    then have 1: "dropWhile isspace (a @ ws) = dropWhile isspace a @ ws"
      by (simp add: dropWhile_append1)
    have "dropWhile isspace (rev ws @ rev (dropWhile isspace a))
            = dropWhile isspace (rev (dropWhile isspace a))"
      using assms by (intro dropWhile_append2) (auto simp: list_all_iff)
    with 1 show ?thesis by (simp add: strip_def)
  qed
qed

text \<open>
  Claim C8. A fragment is the code of a node with surrounding whitespace stripped.
  When the declaration text parses as a bare name or a subscripted or attribute
  expression (the first child of the module has type \<^verbatim>\<open>name\<close>, \<^verbatim>\<open>atom_expr\<close> or
  \<^verbatim>\<open>power\<close>), the splitter returns that expression as the single fragment; when the
  parser gives the text back (\<^verbatim>\<open>get_code\<close> of the module is the text, and what
  follows the expression is whitespace), this fragment is the text itself, stripped.
  Otherwise it returns exactly the direct children of the parsed tuple that are names
  or subscripted or attribute expressions, in order, so a comma inside the brackets of
  a child never splits it; a leaf that is no name gives no fragment. For the trees
  parso builds, \<^verbatim>\<open>foo, Bar[baz, biz]\<close> gives \<^verbatim>\<open>['foo', 'Bar[baz, biz]']\<close> and
  \<^verbatim>\<open>x\<close> gives \<^verbatim>\<open>['x']\<close>.
\<close>

theorem split_comment_param_declaration_fragments:
  "(parser text = Inr (BaseNode t (node # rest)) \<and> ntype node \<in> set annotation_types
      \<longrightarrow> u_split_comment_param_declaration parser text = Inr ([strip (get_code node)], []))
   \<and> (parser text = Inr (BaseNode t (node # rest)) \<and> ntype node \<in> set annotation_types
        \<and> get_code (BaseNode t (node # rest)) = text \<and> list_all isspace (concat (map get_code rest))
      \<longrightarrow> u_split_comment_param_declaration parser text = Inr ([strip text], []))
   \<and> (parser text = Inr (BaseNode t (BaseNode tt cs # rest)) \<and> tt \<notin> set annotation_types
      \<longrightarrow> u_split_comment_param_declaration parser text
            = Inr (map (\<lambda>child. strip (get_code child))
                     (filter (\<lambda>child. ntype child \<in> set annotation_types) cs), []))
   \<and> (parser text = Inr (BaseNode t (Leaf lt p v # rest)) \<and> lt \<notin> set annotation_types
      \<longrightarrow> u_split_comment_param_declaration parser text = Inr ([], []))
   \<and> (parser ''foo, Bar[baz, biz]'' = Inr tree_foo_bar
      \<longrightarrow> u_split_comment_param_declaration parser ''foo, Bar[baz, biz]''
            = Inr ([''foo'', ''Bar[baz, biz]''], []))
   \<and> (parser ''x'' = Inr tree_x
      \<longrightarrow> u_split_comment_param_declaration parser ''x'' = Inr ([''x''], []))"
proof (intro conjI impI)
  assume "parser text = Inr (BaseNode t (node # rest)) \<and> ntype node \<in> set annotation_types"
  then show "u_split_comment_param_declaration parser text = Inr ([strip (get_code node)], [])"
    by (simp add: u_split_comment_param_declaration_def)
next
  assume a: "parser text = Inr (BaseNode t (node # rest)) \<and> ntype node \<in> set annotation_types
    \<and> get_code (BaseNode t (node # rest)) = text \<and> list_all isspace (concat (map get_code rest))"
  then have "text = get_code node @ concat (map get_code rest)" by auto
  then have "strip text = strip (get_code node)" using a by (simp add: strip_append_space)
  then show "u_split_comment_param_declaration parser text = Inr ([strip text], [])"
    using a by (simp add: u_split_comment_param_declaration_def)
next
  assume "parser text = Inr (BaseNode t (BaseNode tt cs # rest)) \<and> tt \<notin> set annotation_types"
  then show "u_split_comment_param_declaration parser text
            = Inr (map (\<lambda>child. strip (get_code child))
                     (filter (\<lambda>child. ntype child \<in> set annotation_types) cs), [])"
    by (simp add: u_split_comment_param_declaration_def)
next
  assume "parser text = Inr (BaseNode t (Leaf lt p v # rest)) \<and> lt \<notin> set annotation_types"
  then show "u_split_comment_param_declaration parser text = Inr ([], [])"
    by (simp add: u_split_comment_param_declaration_def)
next
  assume "parser ''foo, Bar[baz, biz]'' = Inr tree_foo_bar"
  then show "u_split_comment_param_declaration parser ''foo, Bar[baz, biz]''
            = Inr ([''foo'', ''Bar[baz, biz]''], [])"
    by (simp add: u_split_comment_param_declaration_def tree_foo_bar_def annotation_types_def
        name_leaf_def operator_def strip_def isspace_def)
next
  assume "parser ''x'' = Inr tree_x"
  then show "u_split_comment_param_declaration parser ''x'' = Inr ([''x''], [])"
    by (simp add: u_split_comment_param_declaration_def tree_x_def annotation_types_def
        name_leaf_def strip_def isspace_def)
qed

theorem split_comment_param_declaration_fragments_witness:
  "example_parse ''foo, Bar[baz, biz]'' = Inr tree_foo_bar
   \<and> example_parse ''x'' = Inr tree_x
   \<and> get_code tree_x = ''x''
   \<and> u_split_comment_param_declaration example_parse ''foo, Bar[baz, biz]''
       = Inr ([''foo'', ''Bar[baz, biz]''], [])
   \<and> u_split_comment_param_declaration example_parse ''x'' = Inr ([''x''], [])
   \<and> u_split_comment_param_declaration example_parse ''x'' = Inr ([strip ''x''], [])"
  using split_comment_param_declaration_fragments
    [of example_parse "''x''" "''file_input''" "name_leaf [] ''x''" "[Leaf ''endmarker'' [] []]"
        "''testlist_star_expr''" "[]"]
  by (simp add: example_parse_def tree_x_def name_leaf_def annotation_types_def strip_def
      isspace_def)

subsection \<open>Type-variable discovery\<close>

lemma check_node_subscripted:
  "check_node infer_here (subscripted s) found =
     (case u_unpack_subscriptlist s of
        Inl e \<Rightarrow> Inl e
      | Inr subscript_nodes \<Rightarrow>
          for_each subscript_nodes found
            (\<lambda>subscript_node found'. check_node infer_here subscript_node found'))"
  by (subst check_node.simps) (simp add: subscripted_def operator_def)

text \<open>
  Claim C9, as amended. When type-variable discovery walks a subscripted annotation
  expression, a top-level subscript-list is flattened into its elements (its children
  at even positions), and a slice-like subscript form (\<^verbatim>\<open>a:b\<close>) is skipped: it is
  neither yielded nor decomposed. Every node that is yielded is no slice and is the
  subscript itself or one of its direct children, and for \<^verbatim>\<open>X[a:b]\<close> discovery
  leaves the list of type variables found so far as it is.
\<close>

theorem unpack_subscriptlist_skips_slices:
  "(u_unpack_subscriptlist (BaseNode ''subscriptlist'' cs)
      = Inr (filter (\<lambda>subscript. ntype subscript \<noteq> ''subscript'') (every_second cs)))
   \<and> (ntype s \<noteq> ''subscriptlist'' \<and> ntype s \<noteq> ''subscript''
        \<longrightarrow> u_unpack_subscriptlist s = Inr [s])
   \<and> (ntype s = ''subscript'' \<longrightarrow> u_unpack_subscriptlist s = Inr [])
   \<and> (u_unpack_subscriptlist s = Inr ys \<and> y \<in> set ys
        \<longrightarrow> ntype y \<noteq> ''subscript'' \<and> (y = s \<or> children s = Inr (child_nodes s) \<and> y \<in> set (child_nodes s)))
   \<and> (ntype s = ''subscript''
        \<longrightarrow> check_node infer_here (subscripted s) found = Inr found)"
proof (intro conjI impI)
  show "u_unpack_subscriptlist (BaseNode ''subscriptlist'' cs)
      = Inr (filter (\<lambda>subscript. ntype subscript \<noteq> ''subscript'') (every_second cs))"
    by (simp add: u_unpack_subscriptlist_def)
next
  assume "ntype s \<noteq> ''subscriptlist'' \<and> ntype s \<noteq> ''subscript''"
  then show "u_unpack_subscriptlist s = Inr [s]" by (simp add: u_unpack_subscriptlist_def)
next
  assume "ntype s = ''subscript''"
  then show "u_unpack_subscriptlist s = Inr []" by (simp add: u_unpack_subscriptlist_def)
next
  assume a: "u_unpack_subscriptlist s = Inr ys \<and> y \<in> set ys"
  then show "ntype y \<noteq> ''subscript''"
    by (auto simp: u_unpack_subscriptlist_def split: if_splits sum.splits)
  show "y = s \<or> children s = Inr (child_nodes s) \<and> y \<in> set (child_nodes s)"
  proof (cases s)
    case (Leaf t p v)
    with a show ?thesis by (auto simp: u_unpack_subscriptlist_def split: if_splits)
  next
    case (BaseNode t cs)
    with a every_second_subset [of cs] show ?thesis
      by (auto simp: u_unpack_subscriptlist_def split: if_splits)
  qed
next
  assume "ntype s = ''subscript''"
  then show "check_node infer_here (subscripted s) found = Inr found"
    by (simp add: check_node_subscripted u_unpack_subscriptlist_def)
qed

theorem unpack_subscriptlist_skips_slices_witness:
  "u_unpack_subscriptlist subscriptlist_a_slice = Inr [name_leaf [] ''a'']
   \<and> name_leaf [] ''a'' \<in> set (child_nodes subscriptlist_a_slice)
   \<and> ntype (name_leaf [] ''a'') \<noteq> ''subscript''
   \<and> u_unpack_subscriptlist (name_leaf [] ''a'') = Inr [name_leaf [] ''a'']
   \<and> check_node (\<lambda>n. [int_class]) (subscripted slice_b_c) [] = Inr []"
  using unpack_subscriptlist_skips_slices
    [of "[name_leaf [] ''a'', operator [] '','', slice_b_c]" "name_leaf [] ''a''"
        "[name_leaf [] ''a'']" "name_leaf [] ''a''" "\<lambda>n. [int_class]" "[]"]
    unpack_subscriptlist_skips_slices
    [of "[]" slice_b_c "[]" "name_leaf [] ''a''" "\<lambda>n. [int_class]" "[]"]
  by (simp add: subscriptlist_a_slice_def slice_b_c_def name_leaf_def operator_def)

text \<open>
  The claim as stated fails: the slice \<^verbatim>\<open>b:c\<close> of \<^verbatim>\<open>a, b:c\<close> is not among the
  yielded elements, and a subscript that is a slice yields nothing.
\<close>

theorem unpack_subscriptlist_slice_counterexample:
  "ntype slice_b_c = ''subscript''
   \<and> u_unpack_subscriptlist subscriptlist_a_slice = Inr [name_leaf [] ''a'']
   \<and> u_unpack_subscriptlist slice_b_c = Inr []"
  by (simp add: u_unpack_subscriptlist_def subscriptlist_a_slice_def slice_b_c_def name_leaf_def
      operator_def)

subsection \<open>Syntax failures\<close>

lemma index_of_mem: "p \<in> set xs \<Longrightarrow> \<exists>i. index_of xs p = Some i"
  by (induction xs) auto

lemma forward_reference_syntax_error:
  "grammar_parse env s = Inl ParserSyntaxError \<Longrightarrow>
   u_get_forward_reference_node env c s = Inr (None, [AnnotationNotParsed s])"
  by (simp add: u_get_forward_reference_node_def)

lemma annotation_string_syntax_error:
  "grammar_parse env s = Inl ParserSyntaxError \<Longrightarrow>
   u_infer_annotation_string env c s index = Inr (NO_VALUES, [AnnotationNotParsed s])"
  by (simp add: u_infer_annotation_string_def forward_reference_syntax_error)

lemma split_syntax_error:
  "parser t = Inl ParserSyntaxError \<Longrightarrow>
   u_split_comment_param_declaration parser t = Inr ([], [CommentAnnotationNotValid t])"
  by (simp add: u_split_comment_param_declaration_def)

lemma infer_param_syntax_error:
  assumes "annotation p = None" "following_comment (tree_node f) = Some comment"
    "match_params_comment comment = Some g" "parse env g = Inl ParserSyntaxError"
    "p \<in> set (params (tree_node f))"
  shows "u_infer_param env f p =
     Inr (NO_VALUES, [CommentAnnotationNotValid g,
                      CommentsLengthMismatch [] (length (params (tree_node f)))])"
proof -
  obtain i where "index_of (params (tree_node f)) p = Some i"
    using index_of_mem [OF assms(5)] by blast
  moreover have "params (tree_node f) \<noteq> []" using assms(5) by auto
  ultimately show ?thesis
    using assms(1-4) by (simp add: u_infer_param_def split_syntax_error Let_def)
qed

lemma unbalanced_no_match:
  "match_params_comment ''# type: (int, -> str'' = None"
  "match_return_comment ''# type: (int, -> str'' = None"
  "match_type_comment ''# type: (int, -> str'' = Some ''(int, -> str''"
  by (simp_all add: match_params_comment_def match_return_comment_def match_type_comment_def
      params_and_return_def type_comment_body_def isspace_def)

lemma infer_annotation_syntax_error:
  "infer_node env c n = [v] \<Longrightarrow> string_value env v = Some s
   \<Longrightarrow> grammar_parse env s = Inl ParserSyntaxError
   \<Longrightarrow> infer_annotation env c n = Inr ([v], [AnnotationNotParsed s])"
  by (simp add: infer_annotation_def forward_reference_syntax_error)

lemma comment_hint_syntax_error:
  assumes "match_type_comment comment = Some g"
    "grammar_parse env (strip g) = Inl ParserSyntaxError"
  shows "ntype varlist \<notin> set [''testlist_star_expr'', ''exprlist'', ''testlist'']
      \<Longrightarrow> u_find_type_from_comment_hint env c (Some comment) varlist name
            = Inr (execute_annotation env NO_VALUES, [AnnotationNotParsed (strip g)])"
    and "ntype varlist \<in> set [''testlist_star_expr'', ''exprlist'', ''testlist'']
      \<Longrightarrow> children varlist = Inr cs \<Longrightarrow> varlist_index cs name 0 = Some i
      \<Longrightarrow> u_find_type_from_comment_hint env c (Some comment) varlist name
            = Inr (execute_annotation env NO_VALUES, [AnnotationNotParsed (strip g)])"
    and "ntype varlist \<in> set [''testlist_star_expr'', ''exprlist'', ''testlist'']
      \<Longrightarrow> children varlist = Inr cs \<Longrightarrow> varlist_index cs name 0 = None
      \<Longrightarrow> u_find_type_from_comment_hint env c (Some comment) varlist name = Inr ([], [])"
  using assms
  by (simp_all add: u_find_type_from_comment_hint_def annotation_string_syntax_error)

text \<open>
  Claim C7. A syntax failure while parsing a forward reference or a comment-annotation
  fragment is recovered where it happens: when the parser raises
  \<^verbatim>\<open>ParserSyntaxError\<close>, the forward-reference node is \<open>None\<close>, the annotation
  string infers to no values and the splitter returns no fragment, each with one
  diagnostic, and the result is a value, not an exception; a parameter whose comment
  fragments do not parse gets no values, and an annotation that is a string which does
  not parse keeps the values it had. The unbalanced comment
  \<^verbatim>\<open># type: (int, -> str\<close> matches neither the parameter pattern nor the return
  pattern, so \<^verbatim>\<open>_infer_param\<close> and \<^verbatim>\<open>infer_return_types\<close> return no values for
  every function that carries it; as the comment of an assignment its content is
  \<^verbatim>\<open>(int, -> str\<close>, and when the parser rejects that text
  \<^verbatim>\<open>_find_type_from_comment_hint\<close> returns the execution of no values, or the
  empty list when the name is not among the targets.
\<close>

theorem syntax_failure_recovered:
  "(grammar_parse env s = Inl ParserSyntaxError
      \<longrightarrow> u_get_forward_reference_node env c s = Inr (None, [AnnotationNotParsed s])
        \<and> u_infer_annotation_string env c s index = Inr (NO_VALUES, [AnnotationNotParsed s]))
   \<and> (parser t = Inl ParserSyntaxError
      \<longrightarrow> u_split_comment_param_declaration parser t = Inr ([], [CommentAnnotationNotValid t]))
   \<and> (annotation p = None \<and> following_comment (tree_node f) = Some comment
        \<and> match_params_comment comment = Some g \<and> parse env g = Inl ParserSyntaxError
        \<and> p \<in> set (params (tree_node f))
      \<longrightarrow> u_infer_param env f p =
            Inr (NO_VALUES, [CommentAnnotationNotValid g,
                             CommentsLengthMismatch [] (length (params (tree_node f)))]))
   \<and> (infer_node env c n = [v] \<and> string_value env v = Some r
        \<and> grammar_parse env r = Inl ParserSyntaxError
      \<longrightarrow> infer_annotation env c n = Inr ([v], [AnnotationNotParsed r]))
   \<and> (annotation p = None \<and> following_comment (tree_node f) = Some ''# type: (int, -> str''
      \<longrightarrow> u_infer_param env f p = Inr (NO_VALUES, []))
   \<and> (py_annotations (tree_node f) ''return'' = None
        \<and> following_comment (tree_node f) = Some ''# type: (int, -> str''
      \<longrightarrow> infer_return_types env f args = Inr (NoAnnotation, NO_VALUES, []))
   \<and> (grammar_parse env ''(int, -> str'' = Inl ParserSyntaxError
        \<and> ntype varlist \<notin> set [''testlist_star_expr'', ''exprlist'', ''testlist'']
      \<longrightarrow> u_find_type_from_comment_hint env c (Some ''# type: (int, -> str'') varlist name
            = Inr (execute_annotation env NO_VALUES, [AnnotationNotParsed ''(int, -> str'']))
   \<and> (grammar_parse env ''(int, -> str'' = Inl ParserSyntaxError
        \<and> ntype varlist \<in> set [''testlist_star_expr'', ''exprlist'', ''testlist'']
        \<and> children varlist = Inr cs
      \<longrightarrow> u_find_type_from_comment_hint env c (Some ''# type: (int, -> str'') varlist name
            = (case varlist_index cs name 0 of
                 None \<Rightarrow> Inr ([], [])
               | Some i \<Rightarrow>
                   Inr (execute_annotation env NO_VALUES, [AnnotationNotParsed ''(int, -> str''])))"
proof -
  have m: "match_type_comment ''# type: (int, -> str'' = Some ''(int, -> str''"
    "strip ''(int, -> str'' = ''(int, -> str''"
    by (simp_all add: unbalanced_no_match strip_def isspace_def)
  have h: "u_find_type_from_comment_hint env c (Some ''# type: (int, -> str'') varlist name
            = Inr (execute_annotation env NO_VALUES, [AnnotationNotParsed ''(int, -> str''])"
    if "grammar_parse env ''(int, -> str'' = Inl ParserSyntaxError"
      "ntype varlist \<notin> set [''testlist_star_expr'', ''exprlist'', ''testlist'']"
    using comment_hint_syntax_error(1) [OF m(1), of env varlist c name] that by (simp add: m)
  have k: "u_find_type_from_comment_hint env c (Some ''# type: (int, -> str'') varlist name
            = (case varlist_index cs name 0 of
                 None \<Rightarrow> Inr ([], [])
               | Some i \<Rightarrow>
                   Inr (execute_annotation env NO_VALUES, [AnnotationNotParsed ''(int, -> str'']))"
    if "grammar_parse env ''(int, -> str'' = Inl ParserSyntaxError"
      "ntype varlist \<in> set [''testlist_star_expr'', ''exprlist'', ''testlist'']"
      "children varlist = Inr cs"
  proof (cases "varlist_index cs name 0")
    case None
    with comment_hint_syntax_error(3) [OF m(1), of env varlist cs name c] that
    show ?thesis by (simp add: m)
  next
    case (Some i)
    with comment_hint_syntax_error(2) [OF m(1), of env varlist cs name i c] that
    show ?thesis by (simp add: m)
  qed
  show ?thesis
    using infer_param_syntax_error [of p f comment g env] h k
    by (simp add: forward_reference_syntax_error annotation_string_syntax_error
        split_syntax_error unbalanced_no_match u_infer_param_def infer_return_types_def
        infer_annotation_syntax_error)
qed

lemma strip_unbalanced: "strip ''(int, -> str'' = ''(int, -> str''"
  by (simp add: strip_def isspace_def)

lemma match_bad: "match_params_comment ''# type: (int, ->) -> str'' = Some ''int, ->''"
  by (simp add: match_params_comment_def params_and_return_def type_comment_body_def isspace_def)

theorem syntax_failure_recovered_witness:
  "u_get_forward_reference_node example_env 0 ''(int, -> str''
     = Inr (None, [AnnotationNotParsed ''(int, -> str''])
   \<and> u_infer_annotation_string example_env 0 ''(int, -> str'' (Some 0)
       = Inr (NO_VALUES, [AnnotationNotParsed ''(int, -> str''])
   \<and> u_split_comment_param_declaration example_parse ''int, ->''
       = Inr ([], [CommentAnnotationNotValid ''int, ->''])
   \<and> u_infer_param example_env (function_with_comment ''# type: (int, ->) -> str'') param_x
       = Inr (NO_VALUES, [CommentAnnotationNotValid ''int, ->'', CommentsLengthMismatch [] 1])
   \<and> infer_annotation example_env 0 string_leaf
       = Inr ([forward_reference], [AnnotationNotParsed ''Foo(''])
   \<and> u_infer_param example_env (function_with_comment ''# type: (int, -> str'') param_x
       = Inr (NO_VALUES, [])
   \<and> infer_return_types example_env (function_with_comment ''# type: (int, -> str'') ()
       = Inr (NoAnnotation, NO_VALUES, [])
   \<and> u_find_type_from_comment_hint example_env 0 (Some ''# type: (int, -> str'')
         (name_leaf [] ''a'') (name_leaf [] ''a'')
       = Inr ([], [AnnotationNotParsed ''(int, -> str''])
   \<and> u_find_type_from_comment_hint example_env 0 (Some ''# type: (int, -> str'')
         varlist_a_b (name_leaf '' '' ''b'')
       = Inr ([], [AnnotationNotParsed ''(int, -> str''])"
proof -
  have g: "grammar_parse example_env ''(int, -> str'' = Inl ParserSyntaxError"
    "parse example_env ''int, ->'' = Inl ParserSyntaxError"
    "example_parse ''int, ->'' = Inl ParserSyntaxError"
    "grammar_parse example_env ''Foo('' = Inl ParserSyntaxError"
    "infer_node example_env 0 string_leaf = [forward_reference]"
    "string_value example_env forward_reference = Some ''Foo(''"
    "execute_annotation example_env NO_VALUES = []"
    by (simp_all add: example_env_def example_grammar_parse_def example_parse_def
        example_infer_node_def string_leaf_def name_leaf_def tree_int_str_def tree_T_def
        NO_VALUES_def)
  have p: "annotation param_x = None"
    "param_x \<in> set (params (tree_node (function_with_comment c)))"
    "following_comment (tree_node (function_with_comment c)) = Some c"
    "py_annotations (tree_node (function_with_comment c)) ''return'' = None"
    "length (params (tree_node (function_with_comment c))) = 1" for c
    by (simp_all add: param_x_def function_with_comment_def py_annotations_def)
  have v: "ntype (name_leaf [] ''a'') = ''name''"
    "ntype varlist_a_b = ''testlist_star_expr''"
    "children varlist_a_b = Inr [name_leaf [] ''a'', operator [] '','', name_leaf '' '' ''b'']"
    "varlist_index [name_leaf [] ''a'', operator [] '','', name_leaf '' '' ''b'']
       (name_leaf '' '' ''b'') 0 = Some 1"
    by (simp_all add: varlist_a_b_def name_leaf_def operator_def)
  from syntax_failure_recovered
    [of example_env "''(int, -> str''" 0 "Some 0" example_parse "''int, ->''" param_x
        "function_with_comment ''# type: (int, ->) -> str''" "''# type: (int, ->) -> str''"
        "''int, ->''" string_leaf forward_reference "''Foo(''" "()"
        "name_leaf [] ''a''" "name_leaf [] ''a''" "[]"]
    syntax_failure_recovered
    [of example_env "''(int, -> str''" 0 "Some 0" example_parse "''int, ->''" param_x
        "function_with_comment ''# type: (int, -> str''" "''# type: (int, -> str''"
        "''int, ->''" string_leaf forward_reference "''Foo(''" "()"
        varlist_a_b "name_leaf '' '' ''b''"
        "[name_leaf [] ''a'', operator [] '','', name_leaf '' '' ''b'']"]
  show ?thesis
    by (simp add: g p v match_bad strip_unbalanced)
qed

subsection \<open>Annotation strings with an index\<close>

text \<open>
  Claim C3 does not hold of the code: the filter of \<^verbatim>\<open>_infer_annotation_string\<close>
  keeps the tuples of at least \<^verbatim>\<open>index\<close> elements, not \<^verbatim>\<open>index + 1\<close>. For the
  annotation \<^verbatim>\<open>int, str\<close>, a tuple of two elements, index 1 gives \<^verbatim>\<open>str\<close>, and
  index 2 passes the filter and reaches \<^verbatim>\<open>py__simple_getitem__(2)\<close>, which fails.
\<close>

theorem infer_annotation_string_short_tuple:
  "length (py_iter example_env pair_value) = 2
   \<and> u_infer_annotation_string example_env 0 ''int, str'' (Some 1) = Inr ([str_class], [])
   \<and> u_infer_annotation_string example_env 0 ''int, str'' (Some 2) = Inl SimpleGetItemNotFound"
  by (simp add: u_infer_annotation_string_def u_get_forward_reference_node_def example_env_def
      example_grammar_parse_def example_infer_node_def example_py_iter_def tree_int_str_def
      name_leaf_def)

text \<open>In general the values that reach \<^verbatim>\<open>py__simple_getitem__\<close> are these.\<close>

lemma infer_annotation_string_filter:
  "grammar_parse env s = Inr n \<Longrightarrow>
   u_infer_annotation_string env c s (Some i) =
     (case py_simple_getitem env
             (filter (\<lambda>v. array_type env v = Some ''tuple'' \<and> i \<le> length (py_iter env v))
                (infer_node env c n)) i of
        Inl e \<Rightarrow> Inl e | Inr vs \<Rightarrow> Inr (vs, []))"
  by (simp add: u_infer_annotation_string_def u_get_forward_reference_node_def)

subsection \<open>Unification\<close>

lemma infer_type_vars_TypeVar:
  "isinstance t TypeVar \<Longrightarrow>
   u_infer_type_vars env t vs b =
     Inr [py_name t \<mapsto> (if b then set vs else set (py_class_of_set env vs))]"
  by (subst u_infer_type_vars.simps) simp

lemma mro_loop_find:
  "mro_loop name mro =
     find (\<lambda>parent_class. py_name parent_class = name \<and> isinstance parent_class DefineGenericBase) mro"
  by (induction mro) auto

lemma infer_type_vars_general:
  assumes "\<not> isinstance a TypeVar" "\<not> isinstance a TypingClassValueWithIndex"
    "isinstance a GenericClass" "\<not> (py_name a = ''Iterable'' \<and> \<not> b)"
  shows "u_infer_type_vars env a vs b = for_each vs Map.empty (unify_with_ancestor env a)"
proof -
  have c: "(py_name a = ''Iterable'' \<and> \<not> b) = False" using assms(4) by simp
  show ?thesis
    apply (subst u_infer_type_vars.simps)
    apply (simp only: Let_def assms(1-3) c if_False if_True)
    apply (rule arg_cong [where f = "for_each vs Map.empty"])
    apply (intro ext)
    apply (simp add: unify_with_ancestor_def pair_generics_def mro_loop_find
        split: option.splits)
    done
qed

lemma infer_type_vars_Type:
  assumes "\<not> isinstance a TypeVar" "isinstance a TypingClassValueWithIndex"
    "py_name a = ''Type''" "get_generics a = Some given" "given \<noteq> []"
  shows "u_infer_type_vars env a vs False =
     for_each (hd given) Map.empty
       (\<lambda>nested d. merge_result d (u_infer_type_vars env nested vs True))"
  using assms by (subst u_infer_type_vars.simps) (simp add: Let_def)

lemma merge_into_empty:
  "u_merge_type_var_dicts Map.empty [k \<mapsto> vs] = (if vs = {} then Map.empty else [k \<mapsto> vs])"
  by (rule ext) (simp add: u_merge_type_var_dicts_def)

lemma merge_same_key:
  "vs \<noteq> {} \<Longrightarrow> u_merge_type_var_dicts [k \<mapsto> vs] [k \<mapsto> ws] = [k \<mapsto> vs \<union> ws]"
  by (rule ext) (auto simp: u_merge_type_var_dicts_def)

lemma isinstance_examples [simp]:
  "isinstance (type_var n name) c \<longleftrightarrow> c = TypeVar"
  "isinstance (generic_class n name gs) c \<longleftrightarrow> c = GenericClass \<or> c = DefineGenericBase"
  "\<not> isinstance (class_view n name) c"
  by (auto simp: isinstance_def type_var_def generic_class_def class_view_def)

lemma isinstance_Val: "isinstance (Val i n d g f c m) k \<longleftrightarrow> k \<in> set i"
  by (simp add: isinstance_def)

lemma selectors_examples [simp]:
  "py_name (type_var n name) = name"
  "py_name (generic_class n name gs) = name"
  "py_name (class_view n name) = name"
  "get_generics (generic_class n name gs) = Some gs"
  by (simp_all add: type_var_def generic_class_def class_view_def)

text \<open>
  Claim C6. When the annotation value is a bare type variable, unification binds it to
  the actual value set itself if the class-level flag is set, and to the classes of the
  members of the actual value set (\<^verbatim>\<open>value_set.py__class__()\<close>) if it is not. In
  particular, unifying \<^verbatim>\<open>Type[T]\<close> against a value set of classes recurses
  class-level into \<^verbatim>\<open>T\<close> and binds it to that value set itself: the class, not
  its instances and not the class of the class.
\<close>

theorem type_var_binding:
  "(isinstance t TypeVar
      \<longrightarrow> u_infer_type_vars env t vs True = Inr [py_name t \<mapsto> set vs]
        \<and> u_infer_type_vars env t vs False = Inr [py_name t \<mapsto> set (py_class_of_set env vs)])
   \<and> (\<not> isinstance a TypeVar \<and> isinstance a TypingClassValueWithIndex \<and> py_name a = ''Type''
        \<and> get_generics a = Some ([t] # rest) \<and> isinstance t TypeVar \<and> vs \<noteq> []
      \<longrightarrow> u_infer_type_vars env a vs False = Inr [py_name t \<mapsto> set vs])"
  by (simp add: infer_type_vars_TypeVar infer_type_vars_Type merge_result_def merge_into_empty)

theorem type_var_binding_witness:
  "u_infer_type_vars example_env (type_var 10 ''T'') [int_class] True = Inr [''T'' \<mapsto> {int_class}]
   \<and> u_infer_type_vars example_env (type_var 10 ''T'') [pair_value] False
       = Inr [''T'' \<mapsto> set (py_class_of_set example_env [pair_value])]
   \<and> u_infer_type_vars example_env type_of_T [int_class] False = Inr [''T'' \<mapsto> {int_class}]"
  using type_var_binding [of "type_var 10 ''T''" example_env "[int_class]" type_of_T "[]"]
    type_var_binding [of "type_var 10 ''T''" example_env "[pair_value]" type_of_T "[]"]
  by (simp add: type_of_T_def isinstance_Val)

text \<open>
  Claim C4, as amended. The binding map that unification produces is keyed by the name
  of the type variable, not by its declaration: unifying a bare type variable depends
  on the variable only through its name, and when two type variables that share a
  name are bound during one resolution, their bindings are merged into the one entry
  of that name, which holds the union of both.
\<close>

theorem type_var_bindings_keyed_by_name:
  "(isinstance t1 TypeVar \<and> isinstance t2 TypeVar \<and> py_name t1 = py_name t2
      \<longrightarrow> u_infer_type_vars env t1 vs b = u_infer_type_vars env t2 vs b)
   \<and> (isinstance t1 TypeVar \<and> isinstance t2 TypeVar \<and> py_name t1 = py_name t2 \<and> vs1 \<noteq> []
      \<longrightarrow> pair_generics env [[t1], [t2]] [vs1, vs2] Map.empty
            = Inr [py_name t1 \<mapsto> set vs1 \<union> set vs2])"
  by (simp add: infer_type_vars_TypeVar pair_generics_def merge_result_def merge_into_empty
      merge_same_key)

theorem type_var_bindings_keyed_by_name_witness:
  "u_infer_type_vars example_env (type_var 10 ''T'') [int_class] True
     = u_infer_type_vars example_env (type_var 11 ''T'') [int_class] True
   \<and> pair_generics example_env [[type_var 10 ''T''], [type_var 11 ''T'']]
        [[int_class], [str_class]] Map.empty
       = Inr [''T'' \<mapsto> {int_class, str_class}]"
  using type_var_bindings_keyed_by_name
    [of "type_var 10 ''T''" "type_var 11 ''T''" example_env "[int_class]" True
        "[int_class]" "[str_class]"]
  by (simp add: insert_commute)

text \<open>
  The claim as stated fails: unifying \<^verbatim>\<open>Pair[T, T']\<close>, whose two type variables
  are different declarations with the same name, against an instance of
  \<^verbatim>\<open>Pair[int, str]\<close> gives a single entry that holds both \<^verbatim>\<open>int\<close> and
  \<^verbatim>\<open>str\<close>.
\<close>

theorem type_var_keyed_by_declaration_counterexample:
  "type_var 10 ''T'' \<noteq> type_var 11 ''T''
   \<and> u_infer_type_vars example_env pair_annotation [pair_instance] False
       = Inr [''T'' \<mapsto> {int_class, str_class}]"
proof -
  have "u_infer_type_vars example_env pair_annotation [pair_instance] False
      = for_each [pair_instance] Map.empty (unify_with_ancestor example_env pair_annotation)"
    by (rule infer_type_vars_general) (simp_all add: pair_annotation_def)
  also have "\<dots> = Inr [''T'' \<mapsto> {int_class, str_class}]"
    by (simp add: unify_with_ancestor_def pair_instance_def pair_int_str_def pair_annotation_def
        pair_generics_def infer_type_vars_TypeVar merge_result_def merge_into_empty
        merge_same_key isinstance_Val insert_commute)
  finally show ?thesis by (simp add: type_var_def)
qed

lemma find_first:
  "\<forall>x\<in>set pre. \<not> P x \<Longrightarrow> P y \<Longrightarrow> find P (pre @ y # post) = Some y"
  by (induction pre) auto

lemma unify_with_ancestor_found:
  assumes "is_instance element = Some inst"
    "(if inst then get_annotated_class_object element else Some element) = Some py_class"
    "py_mro py_class = Some (before @ parent_class # after)"
    "list_all (\<lambda>c. \<not> (py_name c = py_name a \<and> isinstance c DefineGenericBase)) before"
    "py_name parent_class = py_name a" "isinstance parent_class DefineGenericBase"
    "get_generics a = Some annotation_generics"
    "get_generics parent_class = Some actual_generics"
  shows "unify_with_ancestor env a element d = pair_generics env annotation_generics actual_generics d"
proof -
  have "find (\<lambda>c. py_name c = py_name a \<and> isinstance c DefineGenericBase)
          (before @ parent_class # after) = Some parent_class"
    using assms(4-6) by (intro find_first) (auto simp: list_all_iff)
  then show ?thesis
    using assms(1-3,7,8) unfolding unify_with_ancestor_def by (simp del: find.simps)
qed

lemma unify_with_ancestor_none:
  assumes "is_instance element = Some inst"
    "(if inst then get_annotated_class_object element else Some element) = Some py_class"
    "py_mro py_class = Some mro"
    "list_all (\<lambda>c. \<not> (py_name c = py_name a \<and> isinstance c DefineGenericBase)) mro"
  shows "unify_with_ancestor env a element d = Inr d"
proof -
  have "find (\<lambda>c. py_name c = py_name a \<and> isinstance c DefineGenericBase) mro = None"
    using assms(4) by (auto simp: find_None_iff list_all_iff)
  then show ?thesis
    using assms(1-3) unfolding unify_with_ancestor_def by (simp del: find.simps)
qed

text \<open>
  Claim C2, as amended. In the general generic-construct case of unification, for each
  actual value exposing class/instance duality, the engine takes its class when it is
  an instance and walks that class's method-resolution order; the walk stops at the
  first ancestor whose name matches the annotation construct's name and that is itself
  parameterized, ancestors that match in name without being parameterized being passed
  over; at that ancestor, annotation and actual generic-argument groups are paired
  positionally and recursed class-level. The loop of the source computes the first
  such ancestor, and the general case is the source's loop over the actual values with
  \<open>unify_with_ancestor\<close> as its body: a value without the duality leaves the
  bindings as they are, a value whose class has such an ancestor adds the bindings of
  the pairing with the first of them, and a value whose class has none adds nothing.
\<close>

theorem general_case_first_parameterized_ancestor:
  "mro_loop name mro
     = find (\<lambda>parent_class. py_name parent_class = name
                \<and> isinstance parent_class DefineGenericBase) mro
   \<and> (\<not> isinstance a TypeVar \<and> \<not> isinstance a TypingClassValueWithIndex
        \<and> isinstance a GenericClass \<and> \<not> (py_name a = ''Iterable'' \<and> \<not> b)
      \<longrightarrow> u_infer_type_vars env a vs b
            = for_each vs Map.empty (unify_with_ancestor env a))
   \<and> (is_instance element = None \<longrightarrow> unify_with_ancestor env a element d = Inr d)
   \<and> (is_instance element = Some inst
        \<and> (if inst then get_annotated_class_object element else Some element) = Some py_class
        \<and> py_mro py_class = Some (before @ parent_class # after)
        \<and> list_all (\<lambda>c. \<not> (py_name c = py_name a \<and> isinstance c DefineGenericBase)) before
        \<and> py_name parent_class = py_name a \<and> isinstance parent_class DefineGenericBase
        \<and> get_generics a = Some annotation_generics
        \<and> get_generics parent_class = Some actual_generics
      \<longrightarrow> unify_with_ancestor env a element d
            = pair_generics env annotation_generics actual_generics d)
   \<and> (is_instance element = Some inst
        \<and> (if inst then get_annotated_class_object element else Some element) = Some py_class
        \<and> py_mro py_class = Some ancestors
        \<and> list_all (\<lambda>c. \<not> (py_name c = py_name a \<and> isinstance c DefineGenericBase))
              ancestors
      \<longrightarrow> unify_with_ancestor env a element d = Inr d)"
proof (intro conjI impI)
  show "mro_loop name mro
     = find (\<lambda>parent_class. py_name parent_class = name
                \<and> isinstance parent_class DefineGenericBase) mro"
    by (rule mro_loop_find)
next
  assume "\<not> isinstance a TypeVar \<and> \<not> isinstance a TypingClassValueWithIndex
        \<and> isinstance a GenericClass \<and> \<not> (py_name a = ''Iterable'' \<and> \<not> b)"
  then show "u_infer_type_vars env a vs b = for_each vs Map.empty (unify_with_ancestor env a)"
    by (intro infer_type_vars_general) simp_all
next
  assume "is_instance element = None"
  then show "unify_with_ancestor env a element d = Inr d"
    by (simp add: unify_with_ancestor_def)
next
  assume "is_instance element = Some inst
        \<and> (if inst then get_annotated_class_object element else Some element) = Some py_class
        \<and> py_mro py_class = Some (before @ parent_class # after)
        \<and> list_all (\<lambda>c. \<not> (py_name c = py_name a \<and> isinstance c DefineGenericBase)) before
        \<and> py_name parent_class = py_name a \<and> isinstance parent_class DefineGenericBase
        \<and> get_generics a = Some annotation_generics
        \<and> get_generics parent_class = Some actual_generics"
  then show "unify_with_ancestor env a element d
            = pair_generics env annotation_generics actual_generics d"
    by (intro unify_with_ancestor_found [where inst = inst and py_class = py_class
          and before = before and parent_class = parent_class and after = after]) simp_all
next
  assume "is_instance element = Some inst
        \<and> (if inst then get_annotated_class_object element else Some element) = Some py_class
        \<and> py_mro py_class = Some ancestors
        \<and> list_all (\<lambda>c. \<not> (py_name c = py_name a \<and> isinstance c DefineGenericBase))
              ancestors"
  then show "unify_with_ancestor env a element d = Inr d"
    by (intro unify_with_ancestor_none [where inst = inst and py_class = py_class
          and mro = ancestors]) simp_all
qed

theorem general_case_first_parameterized_ancestor_witness:
  "isinstance foo_annotation GenericClass
   \<and> u_infer_type_vars example_env foo_annotation [foo_instance, int_class] True
       = for_each [foo_instance, int_class] Map.empty
           (unify_with_ancestor example_env foo_annotation)
   \<and> mro_loop ''Foo'' [class_view 21 ''Foo'', generic_class 22 ''Foo'' [[int_class]]]
       = Some (generic_class 22 ''Foo'' [[int_class]])
   \<and> unify_with_ancestor example_env foo_annotation foo_instance Map.empty
       = pair_generics example_env [[type_var 10 ''T'']] [[int_class]] Map.empty
   \<and> unify_with_ancestor example_env foo_annotation int_class Map.empty = Inr Map.empty
   \<and> unify_with_ancestor example_env foo_annotation (type_var 10 ''T'') Map.empty
       = Inr Map.empty"
proof -
  have i: "is_instance foo_instance = Some True"
    "get_annotated_class_object foo_instance = Some foo_subclass"
    "py_mro foo_subclass
       = Some ([class_view 21 ''Foo''] @ generic_class 22 ''Foo'' [[int_class]]
                 # [class_view 3 ''object''])"
    "get_generics foo_annotation = Some [[type_var 10 ''T'']]"
    "py_name foo_annotation = ''Foo''"
    "is_instance int_class = Some False" "py_mro int_class = Some [class_view 1 ''int'']"
    "is_instance (type_var 10 ''T'') = None"
    by (simp_all add: foo_instance_def foo_subclass_def foo_annotation_def int_class_def
        plain_class_def type_var_def generic_class_def)
  from general_case_first_parameterized_ancestor
    [of "''Foo''" "[class_view 21 ''Foo'', generic_class 22 ''Foo'' [[int_class]]]"
        foo_annotation True example_env "[foo_instance, int_class]" foo_instance Map.empty
        True foo_subclass "[class_view 21 ''Foo'']" "generic_class 22 ''Foo'' [[int_class]]"
        "[class_view 3 ''object'']" "[[type_var 10 ''T'']]" "[[int_class]]" "[]"]
    general_case_first_parameterized_ancestor
    [of "''Foo''" "[]" foo_annotation True example_env "[]" int_class Map.empty
        False int_class "[]" "generic_class 22 ''Foo'' [[int_class]]" "[]" "[]" "[]"
        "[class_view 1 ''int'']"]
    general_case_first_parameterized_ancestor
    [of "''Foo''" "[]" foo_annotation True example_env "[]" "type_var 10 ''T''" Map.empty
        False int_class "[]" "generic_class 22 ''Foo'' [[int_class]]" "[]" "[]" "[]" "[]"]
  show ?thesis
    by (simp add: i) (simp add: foo_annotation_def)
qed

text \<open>
  The claim as stated fails: the first ancestor of the instance's class whose name is
  \<^verbatim>\<open>Foo\<close> is not parameterized, so a walk that stopped there would bind nothing;
  the code goes on to \<^verbatim>\<open>Foo[int]\<close> and binds \<^verbatim>\<open>T\<close> to \<^verbatim>\<open>int\<close>.
\<close>

theorem general_case_first_name_match_counterexample:
  "py_mro foo_subclass
     = Some [class_view 21 ''Foo'', generic_class 22 ''Foo'' [[int_class]], class_view 3 ''object'']
   \<and> py_name (class_view 21 ''Foo'') = py_name foo_annotation
   \<and> \<not> isinstance (class_view 21 ''Foo'') DefineGenericBase
   \<and> u_infer_type_vars example_env foo_annotation [foo_instance] False
       = Inr [''T'' \<mapsto> {int_class}]"
proof -
  have "u_infer_type_vars example_env foo_annotation [foo_instance] False
      = for_each [foo_instance] Map.empty (unify_with_ancestor example_env foo_annotation)"
    by (rule infer_type_vars_general) (simp_all add: foo_annotation_def)
  also have "\<dots> = Inr [''T'' \<mapsto> {int_class}]"
    by (simp add: unify_with_ancestor_def foo_instance_def foo_subclass_def foo_annotation_def
        pair_generics_def infer_type_vars_TypeVar merge_result_def merge_into_empty)
  finally show ?thesis by (simp add: foo_subclass_def foo_annotation_def)
qed

subsection \<open>Variadic parameters\<close>

text \<open>
  Claim C10. For a variadic parameter (\<^verbatim>\<open>star_count\<close> 1 or 2) and
  \<^verbatim>\<open>ignore_stars\<close> false, \<^verbatim>\<open>infer_param\<close> returns one wrapper per element of
  the values inferred for the annotation, all of them the same: the class
  \<^verbatim>\<open>tuple\<close> parameterized with the values, respectively the class \<^verbatim>\<open>dict\<close>
  parameterized with \<^verbatim>\<open>str\<close> and the values. When no values are inferred the
  result is empty: no bare wrapper is made. An exception of \<^verbatim>\<open>_infer_param\<close>
  is passed on.
\<close>

theorem infer_param_variadic:
  "(u_infer_param env f p = Inr (values, w) \<and> star_count p = 1
      \<longrightarrow> infer_param env f p False
            = Inr (replicate (length values)
                     (new_GenericClass env (builtin_from_name env ''tuple'') [values]), w))
   \<and> (u_infer_param env f p = Inr (values, w) \<and> star_count p = 2
      \<longrightarrow> infer_param env f p False
            = Inr (replicate (length values)
                     (new_GenericClass env (builtin_from_name env ''dict'')
                        [[builtin_from_name env ''str''], values]), w))
   \<and> (u_infer_param env f p = Inr ([], w) \<and> (star_count p = 1 \<or> star_count p = 2)
      \<longrightarrow> infer_param env f p False = Inr ([], w))
   \<and> (u_infer_param env f p = Inl e \<longrightarrow> infer_param env f p False = Inl e)"
  by (auto simp: infer_param_def Let_def map_replicate_const)

lemma infer_annotation_int:
  "infer_annotation example_env 0 (name_leaf [] ''int'') = Inr ([int_class], [])"
  by (simp add: infer_annotation_def example_env_def example_infer_node_def name_leaf_def
      int_class_def plain_class_def forward_reference_def)

theorem infer_param_variadic_witness:
  "infer_param example_env (function_of [param_args (Some (name_leaf [] ''int''))] None)
      (param_args (Some (name_leaf [] ''int''))) False
     = Inr ([new_GenericClass example_env (builtin_from_name example_env ''tuple'')
               [[int_class]]], [])
   \<and> infer_param example_env (function_of [param_kwargs (Some (name_leaf [] ''int''))] None)
      (param_kwargs (Some (name_leaf [] ''int''))) False
     = Inr ([new_GenericClass example_env (builtin_from_name example_env ''dict'')
               [[builtin_from_name example_env ''str''], [int_class]]], [])
   \<and> infer_param example_env (function_of [param_args None] None) (param_args None) False
     = Inr ([], [])"
proof -
  have a: "u_infer_param example_env (function_of [param_args (Some (name_leaf [] ''int''))] None)
      (param_args (Some (name_leaf [] ''int''))) = Inr ([int_class], [])"
    "u_infer_param example_env (function_of [param_kwargs (Some (name_leaf [] ''int''))] None)
      (param_kwargs (Some (name_leaf [] ''int''))) = Inr ([int_class], [])"
    "u_infer_param example_env (function_of [param_args None] None) (param_args None)
      = Inr ([], [])"
    by (simp_all add: u_infer_param_def param_args_def param_kwargs_def function_of_def
        infer_annotation_int NO_VALUES_def)
  have s: "star_count (param_args x) = 1" "star_count (param_kwargs x) = 2" for x
    by (simp_all add: param_args_def param_kwargs_def)
  from infer_param_variadic
    [of example_env "function_of [param_args (Some (name_leaf [] ''int''))] None"
       "param_args (Some (name_leaf [] ''int''))" "[int_class]" "[]"]
    infer_param_variadic
    [of example_env "function_of [param_kwargs (Some (name_leaf [] ''int''))] None"
       "param_kwargs (Some (name_leaf [] ''int''))" "[int_class]" "[]"]
    infer_param_variadic
    [of example_env "function_of [param_args None] None" "param_args None" "[]" "[]"]
  show ?thesis by (simp add: a s)
qed

subsection \<open>The path of \<^verbatim>\<open>infer_return_types\<close>\<close>

lemma find_unknown_type_vars_leaf:
  "find_unknown_type_vars env c (Leaf ''name'' p v)
     = Inr (u_filter_type_vars (infer_node env c (Leaf ''name'' p v)) [])"
  by (simp add: find_unknown_type_vars_def check_node.simps)

lemma find_unknown_examples:
  "find_unknown_type_vars example_env 0 (name_leaf [] ''T'') = Inr [type_var 10 ''T'']"
  "find_unknown_type_vars example_env 0 (name_leaf [] ''int'') = Inr []"
  by (simp_all add: name_leaf_def find_unknown_type_vars_leaf u_filter_type_vars_def
      example_env_def example_infer_node_def int_class_def plain_class_def isinstance_Val
      isinstance_examples [unfolded name_leaf_def])



lemma infer_annotation_T:
  "infer_annotation example_env 0 (name_leaf [] ''T'') = Inr ([type_var 10 ''T''], [])"
  by (simp add: infer_annotation_def example_env_def example_infer_node_def name_leaf_def
      type_var_def forward_reference_def)

lemma type_vars_for_execution_example:
  "infer_type_vars_for_execution example_env
      (function_of [param_x_T] (Some (name_leaf [] ''T''))) ()
      (py_annotations (tree_node (function_of [param_x_T] (Some (name_leaf [] ''T'')))))
     = Inr [''T'' \<mapsto> {int_class}]"
proof -
  have "u_infer_type_vars example_env (type_var 10 ''T'') [instance_of int_class] False
      = Inr [''T'' \<mapsto> {int_class}]"
    by (simp add: infer_type_vars_TypeVar) (simp add: example_env_def instance_of_def)
  moreover have "infer_node example_env 0 (name_leaf [] ''T'') = [type_var 10 ''T'']"
    "get_executed_param_names example_env
        (function_of [param_x_T] (Some (name_leaf [] ''T''))) ()
      = [\<lparr> string_name = ''x'', get_kind = POSITIONAL_OR_KEYWORD,
            infer = [instance_of int_class] \<rparr>]"
    by (simp_all add: example_env_def example_infer_node_def function_of_def param_x_T_def)
  ultimately show ?thesis
    by (simp add: infer_type_vars_for_execution_def py_annotations_def function_of_def
        param_x_T_def find_unknown_examples merge_result_def merge_into_empty)
qed


lemma match_T: "match_return_comment ''# type: (T) -> T'' = Some ''T''"
  by (simp add: match_return_comment_def params_and_return_def type_comment_body_def isspace_def)

lemma strip_T: "strip ''T'' = ''T''"
  by (simp add: strip_def isspace_def)

lemma annotation_string_T:
  "u_infer_annotation_string example_env 0 ''T'' None = Inr ([type_var 10 ''T''], [])"
  by (simp add: u_infer_annotation_string_def u_get_forward_reference_node_def example_env_def
      example_grammar_parse_def example_infer_node_def tree_T_def tree_int_str_def name_leaf_def)


end
